theory Spec2Isabelle
  imports Complex_Main
begin

section \<open>Data model of \<^verbatim>\<open>plot_forecast.py\<close>\<close>

text \<open>
  The module builds a Plotly figure from a Prophet model and a forecast table. The
  embedding keeps three kinds of Python objects apart:

  \<^item> tables (pandas \<^verbatim>\<open>DataFrame\<close>) and palettes (\<^verbatim>\<open>dict\<close>) that the code copies.
    Whether a write reaches the caller's object depends on which object it is made to,
    so the forecast table and the module constant \<^verbatim>\<open>DEFAULT_PALETTE\<close> live in an
    explicit store and are passed by address;
  \<^item> the figure, which every helper mutates through \<^verbatim>\<open>fig.add_trace\<close> and which
    \<^verbatim>\<open>plot_forecast\<close> returns: it is threaded through the helpers by value;
  \<^item> the model \<^verbatim>\<open>m\<close> and the keyword arguments, which are only read.

  Cell values (timestamps, floats) are never inspected by the code, so their type is
  a parameter \<open>'v\<close>. Plotly validates what it is handed and raises \<^verbatim>\<open>ValueError\<close>
  on a colour string it does not accept and on a layout width or height below 10. The
  test for colour strings is Plotly's, not this repository's: it is a parameter
  \<open>valid_color\<close> of every function that builds a trace.
\<close>

type_synonym addr = nat

text \<open>A \<^verbatim>\<open>DataFrame\<close>: column name to column values; \<^verbatim>\<open>df.columns\<close> is the domain.\<close>

type_synonym 'v frame = "string \<rightharpoonup> 'v list"

type_synonym palette = "string \<rightharpoonup> string"

text \<open>
  The exceptions a call can end in: \<^verbatim>\<open>KeyError\<close> with the missing key, from a table
  or a dictionary, and \<^verbatim>\<open>ValueError\<close> from Plotly's validation.
\<close>

datatype error = KeyError string | ValueError

record 'v heap =
  frames :: "'v frame list"
  dicts :: "palette list"

text \<open>
  The model object is duck-typed: each attribute may be absent (\<open>None\<close> here stands
  for \<^verbatim>\<open>hasattr\<close> being false, not for a Python \<^verbatim>\<open>None\<close> value).
\<close>

record 'v model =
  history :: "'v frame option"
  logistic_floor :: "bool option"
  uncertainty_samples :: "int option"

text \<open>
  \<^verbatim>\<open>go.Scatter\<close> with the keyword arguments the module uses; an argument that is
  not passed is \<open>None\<close>. \<^verbatim>\<open>line=dict(...)\<close> and \<^verbatim>\<open>marker=dict(...)\<close> are nested
  records.
\<close>

record line_style =
  line_color :: "string option"
  line_width :: "int option"
  line_dash :: "string option"

record marker_style =
  marker_color :: string
  marker_size :: int
  marker_opacity :: int

record 'v scatter =
  scatter_x :: "'v list"
  scatter_y :: "'v list"
  scatter_mode :: string
  scatter_line :: "line_style option"
  scatter_marker :: "marker_style option"
  scatter_name :: "string option"
  scatter_hoverinfo :: "string option"
  scatter_showlegend :: "bool option"
  scatter_fill :: "string option"
  scatter_fillcolor :: "string option"

text \<open>
  The layout properties \<^verbatim>\<open>update_layout\<close> is called with. Plotly merges nested
  dictionaries property by property, so each leaf is a field of its own and a leaf
  that was never set is \<open>None\<close>. The two float literals of the source (\<^verbatim>\<open>0.5\<close>,
  \<^verbatim>\<open>1.02\<close>) are kept as the decimal numbers written there.
\<close>

record layout =
  layout_width :: "int option"
  layout_height :: "int option"
  margin_l :: "int option"
  margin_r :: "int option"
  margin_t :: "int option"
  margin_b :: "int option"
  title_text :: "string option"
  title_x :: "real option"
  xaxis_title :: "string option"
  yaxis_title :: "string option"
  hovermode :: "string option"
  legend_orientation :: "string option"
  legend_yanchor :: "string option"
  legend_y :: "real option"
  showlegend :: "bool option"

record 'v figure =
  fig_data :: "'v scatter list"
  fig_layout :: layout

text \<open>The keyword-only arguments of \<^verbatim>\<open>plot_forecast\<close> and their defaults.\<close>

record 'v kwargs =
  kw_fig :: "'v figure option"
  kw_uncertainty :: bool
  kw_plot_cap :: bool
  kw_xlabel :: string
  kw_ylabel :: string
  kw_width :: int
  kw_height :: int
  kw_include_legend :: bool
  kw_colors :: "palette option"

definition default_kwargs :: "'v kwargs" where
  "default_kwargs =
     \<lparr>kw_fig = None, kw_uncertainty = True, kw_plot_cap = True,
      kw_xlabel = ''ds'', kw_ylabel = ''y'', kw_width = 800, kw_height = 600,
      kw_include_legend = False, kw_colors = None\<rparr>"

section \<open>Library operations the module calls\<close>

text \<open>
  Sequencing of statements that may raise: the first exception ends the call and is
  the result.
\<close>

definition bindE :: "error + 'a \<Rightarrow> ('a \<Rightarrow> error + 'b) \<Rightarrow> error + 'b" where
  "bindE r f = (case r of Inl e \<Rightarrow> Inl e | Inr v \<Rightarrow> f v)"

text \<open>\<^verbatim>\<open>df[c]\<close> and \<^verbatim>\<open>d[k]\<close>: a missing key raises \<^verbatim>\<open>KeyError\<close>.\<close>

definition df_getitem :: "'v frame \<Rightarrow> string \<Rightarrow> error + 'v list" where
  "df_getitem df c = (case df c of None \<Rightarrow> Inl (KeyError c) | Some col \<Rightarrow> Inr col)"

definition dict_getitem :: "palette \<Rightarrow> string \<Rightarrow> error + string" where
  "dict_getitem d k = (case d k of None \<Rightarrow> Inl (KeyError k) | Some v \<Rightarrow> Inr v)"

text \<open>
  \<^verbatim>\<open>df.copy()\<close> and \<^verbatim>\<open>d.copy()\<close> allocate a new object with the same contents and
  return its address; \<^verbatim>\<open>d.update(other)\<close> writes into the object at the address
  it is called on, later keys overriding.
\<close>

definition df_copy :: "'v heap \<Rightarrow> addr \<Rightarrow> 'v heap \<times> addr" where
  "df_copy h a = (h\<lparr>frames := frames h @ [frames h ! a]\<rparr>, length (frames h))"

definition dict_copy :: "'v heap \<Rightarrow> addr \<Rightarrow> 'v heap \<times> addr" where
  "dict_copy h a = (h\<lparr>dicts := dicts h @ [dicts h ! a]\<rparr>, length (dicts h))"

definition dict_update :: "'v heap \<Rightarrow> addr \<Rightarrow> palette \<Rightarrow> 'v heap" where
  "dict_update h a other = h\<lparr>dicts := (dicts h)[a := (dicts h ! a) ++ other]\<rparr>"

text \<open>
  \<^verbatim>\<open>go.Scatter(...)\<close> validates its arguments before it returns the trace. Of the
  arguments the module passes, only the colours come from the caller (through the
  palette): the fill colour, the line colour and the marker colour, where given.
\<close>

definition go_Scatter :: "(string \<Rightarrow> bool) \<Rightarrow> 'v scatter \<Rightarrow> error + 'v scatter" where
  "go_Scatter valid_color t =
     (if (case scatter_fillcolor t of None \<Rightarrow> True | Some c \<Rightarrow> valid_color c)
         \<and> (case scatter_line t of
                None \<Rightarrow> True
              | Some l \<Rightarrow> (case line_color l of None \<Rightarrow> True | Some c \<Rightarrow> valid_color c))
         \<and> (case scatter_marker t of None \<Rightarrow> True | Some mk \<Rightarrow> valid_color (marker_color mk))
      then Inr t
      else Inl ValueError)"

text \<open>\<^verbatim>\<open>go.Figure()\<close>: no traces, nothing set in the layout.\<close>

definition empty_layout :: layout where
  "empty_layout =
     \<lparr>layout_width = None, layout_height = None,
      margin_l = None, margin_r = None, margin_t = None, margin_b = None,
      title_text = None, title_x = None, xaxis_title = None, yaxis_title = None,
      hovermode = None, legend_orientation = None, legend_yanchor = None,
      legend_y = None, showlegend = None\<rparr>"

definition new_Figure :: "'v figure" where
  "new_Figure = \<lparr>fig_data = [], fig_layout = empty_layout\<rparr>"

definition add_trace :: "'v figure \<Rightarrow> 'v scatter \<Rightarrow> 'v figure" where
  "add_trace fig t = fig\<lparr>fig_data := fig_data fig @ [t]\<rparr>"

section \<open>The module\<close>

text \<open>
  The module constant: the dictionary literal of lines 33-38, and the address the
  name \<^verbatim>\<open>DEFAULT_PALETTE\<close> is bound to once the module is loaded. The name is
  never rebound, so the address is fixed; what the store holds there is not.
\<close>

definition DEFAULT_PALETTE_literal :: palette where
  "DEFAULT_PALETTE_literal =
     [''forecast'' \<mapsto> ''#0D47A1'',
      ''observed'' \<mapsto> ''#FF6F00'',
      ''cap'' \<mapsto> ''#000000'',
      ''uncertainty'' \<mapsto> ''rgba(0, 114, 178, 0.2)'']"

definition DEFAULT_PALETTE :: addr where
  "DEFAULT_PALETTE = 0"

definition module_loaded :: "'v heap" where
  "module_loaded = \<lparr>frames = [], dicts = [DEFAULT_PALETTE_literal]\<rparr>"

text \<open>
  The keyword arguments of the six \<^verbatim>\<open>go.Scatter(...)\<close> calls of the helpers; the
  column values and the palette colour are the parameters.
\<close>

definition forecast_scatter :: "'v list \<Rightarrow> 'v list \<Rightarrow> string \<Rightarrow> 'v scatter" where
  "forecast_scatter xs ys c =
     \<lparr>scatter_x = xs, scatter_y = ys, scatter_mode = ''lines'',
      scatter_line = Some \<lparr>line_color = Some c, line_width = Some 2, line_dash = None\<rparr>,
      scatter_marker = None, scatter_name = Some ''Forecast'',
      scatter_hoverinfo = None, scatter_showlegend = None,
      scatter_fill = None, scatter_fillcolor = None\<rparr>"

definition observed_scatter :: "'v list \<Rightarrow> 'v list \<Rightarrow> string \<Rightarrow> 'v scatter" where
  "observed_scatter xs ys c =
     \<lparr>scatter_x = xs, scatter_y = ys, scatter_mode = ''markers'',
      scatter_line = None,
      scatter_marker = Some \<lparr>marker_color = c, marker_size = 4, marker_opacity = 1\<rparr>,
      scatter_name = Some ''Observed data points'',
      scatter_hoverinfo = None, scatter_showlegend = None,
      scatter_fill = None, scatter_fillcolor = None\<rparr>"

definition cap_scatter :: "'v list \<Rightarrow> 'v list \<Rightarrow> string \<Rightarrow> 'v scatter" where
  "cap_scatter xs ys c =
     \<lparr>scatter_x = xs, scatter_y = ys, scatter_mode = ''lines'',
      scatter_line = Some \<lparr>line_color = Some c, line_width = None, line_dash = Some ''dash''\<rparr>,
      scatter_marker = None, scatter_name = Some ''Maximum capacity'',
      scatter_hoverinfo = None, scatter_showlegend = None,
      scatter_fill = None, scatter_fillcolor = None\<rparr>"

definition floor_scatter :: "'v list \<Rightarrow> 'v list \<Rightarrow> string \<Rightarrow> 'v scatter" where
  "floor_scatter xs ys c =
     \<lparr>scatter_x = xs, scatter_y = ys, scatter_mode = ''lines'',
      scatter_line = Some \<lparr>line_color = Some c, line_width = None, line_dash = Some ''dash''\<rparr>,
      scatter_marker = None, scatter_name = Some ''Minimum capacity'',
      scatter_hoverinfo = None, scatter_showlegend = None,
      scatter_fill = None, scatter_fillcolor = None\<rparr>"

definition upper_scatter :: "'v list \<Rightarrow> 'v list \<Rightarrow> 'v scatter" where
  "upper_scatter xs ys =
     \<lparr>scatter_x = xs, scatter_y = ys, scatter_mode = ''lines'',
      scatter_line = Some \<lparr>line_color = None, line_width = Some 0, line_dash = None\<rparr>,
      scatter_marker = None, scatter_name = None,
      scatter_hoverinfo = Some ''skip'', scatter_showlegend = Some False,
      scatter_fill = None, scatter_fillcolor = None\<rparr>"

definition lower_scatter :: "'v list \<Rightarrow> 'v list \<Rightarrow> string \<Rightarrow> 'v scatter" where
  "lower_scatter xs ys c =
     \<lparr>scatter_x = xs, scatter_y = ys, scatter_mode = ''lines'',
      scatter_line = Some \<lparr>line_color = None, line_width = Some 0, line_dash = None\<rparr>,
      scatter_marker = None, scatter_name = Some ''Uncertainty interval'',
      scatter_hoverinfo = Some ''skip'', scatter_showlegend = None,
      scatter_fill = Some ''tonexty'', scatter_fillcolor = Some c\<rparr>"

text \<open>
  The helpers read the table and the palette through their addresses and return the
  figure with the traces added, or the exception raised. Python evaluates the
  arguments of \<^verbatim>\<open>go.Scatter\<close> left to right and then makes the call, so the first
  missing key is reported, and a colour is validated only when no key is missing.
\<close>

definition add_forecast :: "(string \<Rightarrow> bool) \<Rightarrow> 'v heap \<Rightarrow> 'v figure \<Rightarrow> addr \<Rightarrow> addr \<Rightarrow> error + 'v figure" where
  "add_forecast valid_color h fig fcst palette =
     bindE (df_getitem (frames h ! fcst) ''ds'') (\<lambda>xs.
     bindE (df_getitem (frames h ! fcst) ''yhat'') (\<lambda>ys.
     bindE (dict_getitem (dicts h ! palette) ''forecast'') (\<lambda>c.
     bindE (go_Scatter valid_color (forecast_scatter xs ys c)) (\<lambda>t.
     Inr (add_trace fig t)))))"

text \<open>\<^verbatim>\<open>hasattr(m, "history")\<close> decides; without the attribute nothing is read.\<close>

definition add_observed :: "(string \<Rightarrow> bool) \<Rightarrow> 'v heap \<Rightarrow> 'v figure \<Rightarrow> 'v model \<Rightarrow> addr \<Rightarrow> error + 'v figure" where
  "add_observed valid_color h fig m palette =
     (case history m of
        None \<Rightarrow> Inr fig
      | Some hist \<Rightarrow>
          bindE (df_getitem hist ''ds'') (\<lambda>xs.
          bindE (df_getitem hist ''y'') (\<lambda>ys.
          bindE (dict_getitem (dicts h ! palette) ''observed'') (\<lambda>c.
          bindE (go_Scatter valid_color (observed_scatter xs ys c)) (\<lambda>t.
          Inr (add_trace fig t))))))"

text \<open>
  \<^verbatim>\<open>_add_capacity\<close> is two \<^verbatim>\<open>if\<close> statements in a row; each is a function here
  and \<open>add_capacity\<close> runs them in the order of the source.
  \<^verbatim>\<open>getattr(m, "logistic_floor", False)\<close> is the attribute, or false when absent.
\<close>

definition add_capacity_cap :: "(string \<Rightarrow> bool) \<Rightarrow> 'v heap \<Rightarrow> 'v figure \<Rightarrow> addr \<Rightarrow> addr \<Rightarrow> error + 'v figure" where
  "add_capacity_cap valid_color h fig fcst palette =
     (if ''cap'' \<in> dom (frames h ! fcst) then
        bindE (df_getitem (frames h ! fcst) ''ds'') (\<lambda>xs.
        bindE (df_getitem (frames h ! fcst) ''cap'') (\<lambda>ys.
        bindE (dict_getitem (dicts h ! palette) ''cap'') (\<lambda>c.
        bindE (go_Scatter valid_color (cap_scatter xs ys c)) (\<lambda>t.
        Inr (add_trace fig t)))))
      else Inr fig)"

definition add_capacity_floor :: "(string \<Rightarrow> bool) \<Rightarrow> 'v heap \<Rightarrow> 'v figure \<Rightarrow> 'v model \<Rightarrow> addr \<Rightarrow> addr \<Rightarrow> error + 'v figure" where
  "add_capacity_floor valid_color h fig m fcst palette =
     (if (case logistic_floor m of None \<Rightarrow> False | Some b \<Rightarrow> b)
           \<and> ''floor'' \<in> dom (frames h ! fcst) then
        bindE (df_getitem (frames h ! fcst) ''ds'') (\<lambda>xs.
        bindE (df_getitem (frames h ! fcst) ''floor'') (\<lambda>ys.
        bindE (dict_getitem (dicts h ! palette) ''cap'') (\<lambda>c.
        bindE (go_Scatter valid_color (floor_scatter xs ys c)) (\<lambda>t.
        Inr (add_trace fig t)))))
      else Inr fig)"

definition add_capacity :: "(string \<Rightarrow> bool) \<Rightarrow> 'v heap \<Rightarrow> 'v figure \<Rightarrow> 'v model \<Rightarrow> addr \<Rightarrow> addr \<Rightarrow> error + 'v figure" where
  "add_capacity valid_color h fig m fcst palette =
     bindE (add_capacity_cap valid_color h fig fcst palette) (\<lambda>fig1.
     add_capacity_floor valid_color h fig1 m fcst palette)"

text \<open>
  \<^verbatim>\<open>_add_uncertainty\<close>: \<^verbatim>\<open>getattr(m, "uncertainty_samples", 0) > 0\<close> guards both
  traces. The upper trace is built and added before the second \<^verbatim>\<open>go.Scatter\<close>
  call reads anything.
\<close>

definition add_uncertainty :: "(string \<Rightarrow> bool) \<Rightarrow> 'v heap \<Rightarrow> 'v figure \<Rightarrow> 'v model \<Rightarrow> addr \<Rightarrow> addr \<Rightarrow> error + 'v figure" where
  "add_uncertainty valid_color h fig m fcst palette =
     (if (case uncertainty_samples m of None \<Rightarrow> 0 | Some n \<Rightarrow> n) > 0 then
        bindE (df_getitem (frames h ! fcst) ''ds'') (\<lambda>xs.
        bindE (df_getitem (frames h ! fcst) ''yhat_upper'') (\<lambda>ys.
        bindE (go_Scatter valid_color (upper_scatter xs ys)) (\<lambda>upper.
        let fig1 = add_trace fig upper in
        bindE (df_getitem (frames h ! fcst) ''ds'') (\<lambda>xs'.
        bindE (df_getitem (frames h ! fcst) ''yhat_lower'') (\<lambda>ys'.
        bindE (dict_getitem (dicts h ! palette) ''uncertainty'') (\<lambda>c.
        bindE (go_Scatter valid_color (lower_scatter xs' ys' c)) (\<lambda>lower.
        Inr (add_trace fig1 lower))))))))
      else Inr fig)"

text \<open>
  The two \<^verbatim>\<open>update_layout\<close> calls at the end of \<^verbatim>\<open>plot_forecast\<close>. Plotly sets
  the properties in the order they are passed and raises \<^verbatim>\<open>ValueError\<close> at a width
  or a height below 10; every other value the first call passes is a constant Plotly
  accepts or a string, and so is every value of the second call.
\<close>

definition update_layout_main :: "'v figure \<Rightarrow> int \<Rightarrow> int \<Rightarrow> string \<Rightarrow> string \<Rightarrow> error + 'v figure" where
  "update_layout_main fig w hgt xl yl =
     (if w < 10 then Inl ValueError
      else if hgt < 10 then Inl ValueError
      else Inr (fig\<lparr>fig_layout := (fig_layout fig)
        \<lparr>layout_width := Some w, layout_height := Some hgt,
         margin_l := Some 60, margin_r := Some 40, margin_t := Some 60, margin_b := Some 60,
         title_text := Some [], title_x := Some 0.5,
         xaxis_title := Some xl, yaxis_title := Some yl,
         hovermode := Some ''x unified''\<rparr>\<rparr>))"

definition update_layout_legend :: "'v figure \<Rightarrow> bool \<Rightarrow> 'v figure" where
  "update_layout_legend fig include_legend =
     (if include_legend then
        fig\<lparr>fig_layout := (fig_layout fig)
          \<lparr>legend_orientation := Some ''h'', legend_yanchor := Some ''bottom'',
           legend_y := Some 1.02\<rparr>\<rparr>
      else
        fig\<lparr>fig_layout := (fig_layout fig)\<lparr>showlegend := Some False\<rparr>\<rparr>)"

text \<open>
  \<^verbatim>\<open>plot_forecast\<close>. The result pairs the store after the call with the returned
  figure or the exception. The copies are made before anything can raise, so the
  store is the same on both outcomes. A dictionary is true when it is not empty, so
  \<^verbatim>\<open>if colors:\<close> skips \<^verbatim>\<open>None\<close> and the empty dictionary alike; a figure object is
  always true, so \<^verbatim>\<open>fig or go.Figure()\<close> is the figure passed in, or a new one when
  none was. When a step raises, the traces added before it stay on a figure the caller
  passed in; the embedding returns the exception alone, and no claim below is about
  that figure.
\<close>

definition plot_forecast :: "(string \<Rightarrow> bool) \<Rightarrow> 'v heap \<Rightarrow> 'v model \<Rightarrow> addr \<Rightarrow> 'v kwargs \<Rightarrow> 'v heap \<times> (error + 'v figure)" where
  "plot_forecast valid_color h m fcst kw =
     (let (h1, fcst1) = df_copy h fcst;
          (h2, palette) = dict_copy h1 DEFAULT_PALETTE;
          h3 = (case kw_colors kw of
                  None \<Rightarrow> h2
                | Some colors \<Rightarrow>
                    if colors \<noteq> Map.empty then dict_update h2 palette colors else h2);
          fig0 = (case kw_fig kw of None \<Rightarrow> new_Figure | Some f \<Rightarrow> f)
      in (h3,
          bindE (add_forecast valid_color h3 fig0 fcst1 palette) (\<lambda>fig1.
          bindE (add_observed valid_color h3 fig1 m palette) (\<lambda>fig2.
          bindE (if kw_plot_cap kw then add_capacity valid_color h3 fig2 m fcst1 palette
                 else Inr fig2)
            (\<lambda>fig3.
          bindE (if kw_uncertainty kw then add_uncertainty valid_color h3 fig3 m fcst1 palette
                 else Inr fig3)
            (\<lambda>fig4.
          bindE (update_layout_main fig4 (kw_width kw) (kw_height kw)
                   (kw_xlabel kw) (kw_ylabel kw))
            (\<lambda>fig5.
          Inr (update_layout_legend fig5 (kw_include_legend kw)))))))))"

section \<open>Example inputs\<close>

text \<open>
  The example of the specification's section 8: a table of three rows with the columns
  \<^verbatim>\<open>ds\<close> and \<^verbatim>\<open>yhat = [1, 2, 3]\<close> only, and a model with none of the optional
  attributes. Beside it, a table with every optional column and a fitted model with a
  history, a floor and posterior samples. The store is the one the module leaves when
  it is loaded, with the caller's two tables in it.
\<close>

definition example_fcst :: "int frame" where
  "example_fcst = [''ds'' \<mapsto> [1, 2, 3], ''yhat'' \<mapsto> [1, 2, 3]]"

definition example_fcst_full :: "int frame" where
  "example_fcst_full =
     [''ds'' \<mapsto> [1, 2, 3], ''yhat'' \<mapsto> [10, 20, 30],
      ''yhat_lower'' \<mapsto> [8, 18, 28], ''yhat_upper'' \<mapsto> [12, 22, 32],
      ''cap'' \<mapsto> [50, 50, 50], ''floor'' \<mapsto> [0, 0, 0]]"

definition example_bare_model :: "int model" where
  "example_bare_model =
     \<lparr>history = None, logistic_floor = None, uncertainty_samples = None\<rparr>"

definition example_fitted_model :: "int model" where
  "example_fitted_model =
     \<lparr>history = Some [''ds'' \<mapsto> [1, 2], ''y'' \<mapsto> [9, 21]],
      logistic_floor = Some True, uncertainty_samples = Some 1000\<rparr>"

definition example_heap :: "int heap" where
  "example_heap = module_loaded\<lparr>frames := [example_fcst, example_fcst_full]\<rparr>"

text \<open>
  A colour test for the examples. It accepts the hexadecimal and \<^verbatim>\<open>rgba(\<close> strings the
  examples use and refuses, among others, the empty string and \<^verbatim>\<open>notacolor\<close>.
\<close>

definition example_valid_color :: "string \<Rightarrow> bool" where
  "example_valid_color c = (take 1 c = ''#'' \<or> take 5 c = ''rgba('')"

section \<open>How a call returns\<close>

text \<open>
  Two names for what lines 170-176 compute, used in the statements below: the palette
  the call resolves (the stored default with the caller's overrides on top) and the
  figure it draws on (\<^verbatim>\<open>fig or go.Figure()\<close>).
\<close>

abbreviation resolved_palette :: "'v heap \<Rightarrow> 'v kwargs \<Rightarrow> palette" where
  "resolved_palette h kw \<equiv>
     (dicts h ! DEFAULT_PALETTE) ++ (case kw_colors kw of None \<Rightarrow> Map.empty | Some cs \<Rightarrow> cs)"

abbreviation target_figure :: "'v kwargs \<Rightarrow> 'v figure" where
  "target_figure kw \<equiv> (case kw_fig kw of None \<Rightarrow> new_Figure | Some f \<Rightarrow> f)"

subsection \<open>When a step returns a figure\<close>

lemma bindE_Inr_iff: "bindE r f = Inr y \<longleftrightarrow> (\<exists>v. r = Inr v \<and> f v = Inr y)"
  by (cases r) (simp_all add: bindE_def)

lemma bindE_simps: "bindE (Inr v) f = f v" "bindE (Inl e) f = Inl e"
  by (simp_all add: bindE_def)

lemma df_getitem_Inr_iff: "df_getitem df c = Inr col \<longleftrightarrow> df c = Some col"
  by (simp add: df_getitem_def split: option.splits)

lemma dict_getitem_Inr_iff: "dict_getitem d k = Inr v \<longleftrightarrow> d k = Some v"
  by (simp add: dict_getitem_def split: option.splits)

text \<open>What \<^verbatim>\<open>go.Scatter\<close> does with each of the six argument lists.\<close>

lemma go_Scatter_simps:
  "go_Scatter V (forecast_scatter xs ys c) =
     (if V c then Inr (forecast_scatter xs ys c) else Inl ValueError)"
  "go_Scatter V (observed_scatter xs ys c) =
     (if V c then Inr (observed_scatter xs ys c) else Inl ValueError)"
  "go_Scatter V (cap_scatter xs ys c) =
     (if V c then Inr (cap_scatter xs ys c) else Inl ValueError)"
  "go_Scatter V (floor_scatter xs ys c) =
     (if V c then Inr (floor_scatter xs ys c) else Inl ValueError)"
  "go_Scatter V (upper_scatter xs ys) = Inr (upper_scatter xs ys)"
  "go_Scatter V (lower_scatter xs ys c) =
     (if V c then Inr (lower_scatter xs ys c) else Inl ValueError)"
  by (simp_all add: go_Scatter_def forecast_scatter_def observed_scatter_def cap_scatter_def
      floor_scatter_def upper_scatter_def lower_scatter_def)

lemmas Inr_iffs = bindE_Inr_iff df_getitem_Inr_iff dict_getitem_Inr_iff

lemma add_forecast_Inr:
  "add_forecast V h fig a p = Inr fig' \<longleftrightarrow>
     (\<exists>xs ys c. (frames h ! a) ''ds'' = Some xs \<and> (frames h ! a) ''yhat'' = Some ys \<and>
        (dicts h ! p) ''forecast'' = Some c \<and> V c \<and>
        fig' = add_trace fig (forecast_scatter xs ys c))"
  by (auto simp: add_forecast_def Inr_iffs go_Scatter_simps split: if_splits)

lemma add_observed_Inr:
  "add_observed V h fig m p = Inr fig' \<longleftrightarrow>
     (case history m of
        None \<Rightarrow> fig' = fig
      | Some hist \<Rightarrow>
          (\<exists>xs ys c. hist ''ds'' = Some xs \<and> hist ''y'' = Some ys \<and>
             (dicts h ! p) ''observed'' = Some c \<and> V c \<and>
             fig' = add_trace fig (observed_scatter xs ys c)))"
  by (auto simp: add_observed_def Inr_iffs go_Scatter_simps split: option.splits if_splits)

lemma add_capacity_cap_Inr:
  "add_capacity_cap V h fig a p = Inr fig' \<longleftrightarrow>
     (if ''cap'' \<in> dom (frames h ! a) then
        \<exists>xs ys c. (frames h ! a) ''ds'' = Some xs \<and> (frames h ! a) ''cap'' = Some ys \<and>
          (dicts h ! p) ''cap'' = Some c \<and> V c \<and> fig' = add_trace fig (cap_scatter xs ys c)
      else fig' = fig)"
  by (auto simp: add_capacity_cap_def Inr_iffs go_Scatter_simps split: if_splits)

lemma add_capacity_floor_Inr:
  "add_capacity_floor V h fig m a p = Inr fig' \<longleftrightarrow>
     (if logistic_floor m = Some True \<and> ''floor'' \<in> dom (frames h ! a) then
        \<exists>xs ys c. (frames h ! a) ''ds'' = Some xs \<and> (frames h ! a) ''floor'' = Some ys \<and>
          (dicts h ! p) ''cap'' = Some c \<and> V c \<and> fig' = add_trace fig (floor_scatter xs ys c)
      else fig' = fig)"
  by (auto simp: add_capacity_floor_def Inr_iffs go_Scatter_simps split: option.splits if_splits)

lemma add_uncertainty_Inr:
  "add_uncertainty V h fig m a p = Inr fig' \<longleftrightarrow>
     (if (\<exists>n. uncertainty_samples m = Some n \<and> 0 < n) then
        \<exists>xs us ls c. (frames h ! a) ''ds'' = Some xs \<and> (frames h ! a) ''yhat_upper'' = Some us \<and>
          (frames h ! a) ''yhat_lower'' = Some ls \<and> (dicts h ! p) ''uncertainty'' = Some c \<and>
          V c \<and>
          fig' = add_trace (add_trace fig (upper_scatter xs us)) (lower_scatter xs ls c)
      else fig' = fig)"
  by (auto simp: add_uncertainty_def Inr_iffs go_Scatter_simps Let_def
      split: option.splits if_splits)

lemma update_layout_main_Inr:
  "update_layout_main fig w hg xl yl = Inr fig' \<longleftrightarrow>
     10 \<le> w \<and> 10 \<le> hg \<and>
     fig' = fig\<lparr>fig_layout := (fig_layout fig)
        \<lparr>layout_width := Some w, layout_height := Some hg,
         margin_l := Some 60, margin_r := Some 40, margin_t := Some 60, margin_b := Some 60,
         title_text := Some [], title_x := Some 0.5,
         xaxis_title := Some xl, yaxis_title := Some yl,
         hovermode := Some ''x unified''\<rparr>\<rparr>"
  by (auto simp: update_layout_main_def)

lemma add_trace_simps: "fig_data (add_trace fig t) = fig_data fig @ [t]"
  "fig_layout (add_trace fig t) = fig_layout fig"
  by (simp_all add: add_trace_def)

lemma update_layout_data:
  "fig_data (update_layout_legend fig b) = fig_data fig"
  "update_layout_main fig w hg xl yl = Inr fig5 \<Longrightarrow> fig_data fig5 = fig_data fig"
  by (auto simp: update_layout_legend_def update_layout_main_Inr)

subsection \<open>The store and the steps of a call\<close>

lemma plot_forecast_heap:
  "fst (plot_forecast V h m fcst kw) =
     h\<lparr>frames := frames h @ [frames h ! fcst],
       dicts := dicts h @ [(dicts h ! DEFAULT_PALETTE) ++
                  (case kw_colors kw of None \<Rightarrow> Map.empty | Some c \<Rightarrow> c)]\<rparr>"
  by (simp add: plot_forecast_def df_copy_def dict_copy_def dict_update_def Let_def
      split: option.splits)

lemma plot_forecast_unfold:
  assumes "H = h\<lparr>frames := frames h @ [frames h ! fcst],
       dicts := dicts h @ [(dicts h ! DEFAULT_PALETTE) ++
                  (case kw_colors kw of None \<Rightarrow> Map.empty | Some c \<Rightarrow> c)]\<rparr>"
    and "a = length (frames h)" and "p = length (dicts h)"
  shows "plot_forecast V h m fcst kw =
     (H,
      bindE (add_forecast V H (case kw_fig kw of None \<Rightarrow> new_Figure | Some f \<Rightarrow> f) a p)
        (\<lambda>fig1.
      bindE (add_observed V H fig1 m p) (\<lambda>fig2.
      bindE (if kw_plot_cap kw then add_capacity V H fig2 m a p else Inr fig2) (\<lambda>fig3.
      bindE (if kw_uncertainty kw then add_uncertainty V H fig3 m a p else Inr fig3) (\<lambda>fig4.
      bindE (update_layout_main fig4 (kw_width kw) (kw_height kw) (kw_xlabel kw) (kw_ylabel kw))
        (\<lambda>fig5.
      Inr (update_layout_legend fig5 (kw_include_legend kw))))))))"
proof (cases "kw_colors kw")
  case None
  then show ?thesis
    by (simp add: plot_forecast_def df_copy_def dict_copy_def Let_def assms cong: if_cong)
next
  case (Some colors)
  then show ?thesis
    by (cases "colors = Map.empty")
      (simp_all add: plot_forecast_def df_copy_def dict_copy_def dict_update_def Let_def assms
        cong: if_cong)
qed

text \<open>
  The outcome of a call, read off the store it leaves: every step is handed the
  addresses of the two copies (the last table and the last dictionary allocated).
\<close>

lemma plot_forecast_steps:
  assumes call: "plot_forecast V h m fcst kw = (h', r)"
  shows "r = bindE (add_forecast V h' (target_figure kw) (length (frames h)) (length (dicts h)))
                (\<lambda>fig1.
              bindE (add_observed V h' fig1 m (length (dicts h))) (\<lambda>fig2.
              bindE (if kw_plot_cap kw
                     then add_capacity V h' fig2 m (length (frames h)) (length (dicts h))
                     else Inr fig2) (\<lambda>fig3.
              bindE (if kw_uncertainty kw
                     then add_uncertainty V h' fig3 m (length (frames h)) (length (dicts h))
                     else Inr fig3) (\<lambda>fig4.
              bindE (update_layout_main fig4 (kw_width kw) (kw_height kw)
                       (kw_xlabel kw) (kw_ylabel kw)) (\<lambda>fig5.
              Inr (update_layout_legend fig5 (kw_include_legend kw)))))))"
proof -
  define H where "H = h\<lparr>frames := frames h @ [frames h ! fcst],
       dicts := dicts h @ [resolved_palette h kw]\<rparr>"
  note unf = plot_forecast_unfold[OF H_def refl refl, of V m]
  from call have h': "h' = H" by (simp add: unf)
  from call show ?thesis unfolding h' by (simp add: unf)
qed

text \<open>
  Everything a returning call did, in one place: the columns and colours it found and
  the traces it appended, in the order of the calls in \<^verbatim>\<open>plot_forecast\<close>.
\<close>

lemma plot_forecast_InrE:
  assumes ok: "plot_forecast V h m fcst kw = (h', Inr fig')"
    and P: "P = resolved_palette h kw"
    and tbl: "df = frames h ! fcst"
  obtains xs ys c obs cap flo band fig4 fig5 where
    "df ''ds'' = Some xs"
    "df ''yhat'' = Some ys"
    "P ''forecast'' = Some c"
    "case history m of
       None \<Rightarrow> obs = []
     | Some hist \<Rightarrow> \<exists>hx hy oc. hist ''ds'' = Some hx \<and> hist ''y'' = Some hy \<and>
         P ''observed'' = Some oc \<and> obs = [observed_scatter hx hy oc]"
    "if kw_plot_cap kw \<and> ''cap'' \<in> dom df
     then \<exists>cy cc. df ''cap'' = Some cy \<and> P ''cap'' = Some cc \<and> cap = [cap_scatter xs cy cc]
     else cap = []"
    "if kw_plot_cap kw \<and> logistic_floor m = Some True \<and> ''floor'' \<in> dom df
     then \<exists>fy cc. df ''floor'' = Some fy \<and> P ''cap'' = Some cc \<and>
            flo = [floor_scatter xs fy cc]
     else flo = []"
    "if kw_uncertainty kw \<and> (\<exists>n. uncertainty_samples m = Some n \<and> 0 < n)
     then \<exists>us ls uc. df ''yhat_upper'' = Some us \<and> df ''yhat_lower'' = Some ls \<and>
            P ''uncertainty'' = Some uc \<and>
            band = [upper_scatter xs us, lower_scatter xs ls uc]
     else band = []"
    "fig_data fig' = fig_data (target_figure kw)
        @ [forecast_scatter xs ys c] @ obs @ cap @ flo @ band"
    "fig_layout fig4 = fig_layout (target_figure kw)"
    "update_layout_main fig4 (kw_width kw) (kw_height kw) (kw_xlabel kw) (kw_ylabel kw)
       = Inr fig5"
    "fig' = update_layout_legend fig5 (kw_include_legend kw)"
proof -
  define H where "H = h\<lparr>frames := frames h @ [frames h ! fcst],
       dicts := dicts h @ [resolved_palette h kw]\<rparr>"
  define a where "a = length (frames h)"
  define p where "p = length (dicts h)"
  define fig0 where "fig0 = target_figure kw"
  note unf = plot_forecast_unfold[OF H_def a_def p_def, of V m]
  have df: "frames H ! a = df" by (simp add: H_def a_def tbl)
  have pal: "dicts H ! p = P" by (simp add: H_def p_def P)
  from ok obtain fig1 fig2 fig3 fig4 fig5 where
    1: "add_forecast V H fig0 a p = Inr fig1" and
    2: "add_observed V H fig1 m p = Inr fig2" and
    3: "(if kw_plot_cap kw then add_capacity V H fig2 m a p else Inr fig2) = Inr fig3" and
    4: "(if kw_uncertainty kw then add_uncertainty V H fig3 m a p else Inr fig3) = Inr fig4" and
    5: "update_layout_main fig4 (kw_width kw) (kw_height kw) (kw_xlabel kw) (kw_ylabel kw)
          = Inr fig5" and
    6: "fig' = update_layout_legend fig5 (kw_include_legend kw)"
    unfolding unf fig0_def[symmetric] by (auto simp: bindE_Inr_iff)
  from 1 obtain xs ys c where xs: "df ''ds'' = Some xs"
    and ys: "df ''yhat'' = Some ys"
    and c: "P ''forecast'' = Some c"
    and f1: "fig1 = add_trace fig0 (forecast_scatter xs ys c)"
    unfolding add_forecast_Inr df pal by auto
  from 2 obtain obs where obs: "case history m of
       None \<Rightarrow> obs = []
     | Some hist \<Rightarrow> \<exists>hx hy oc. hist ''ds'' = Some hx \<and> hist ''y'' = Some hy \<and>
         P ''observed'' = Some oc \<and> obs = [observed_scatter hx hy oc]"
    and f2: "fig_data fig2 = fig_data fig1 @ obs" "fig_layout fig2 = fig_layout fig1"
    unfolding add_observed_Inr pal
    by (cases "history m") (auto simp: add_trace_simps)
  from 3 obtain fig2a where
    capA: "if kw_plot_cap kw then add_capacity_cap V H fig2 a p = Inr fig2a else fig2a = fig2" and
    capB: "if kw_plot_cap kw then add_capacity_floor V H fig2a m a p = Inr fig3
           else fig3 = fig2a"
    by (auto simp: add_capacity_def bindE_Inr_iff split: if_splits)
  from capA obtain cap where cap: "if kw_plot_cap kw \<and> ''cap'' \<in> dom df
     then \<exists>cy cc. df ''cap'' = Some cy \<and> P ''cap'' = Some cc \<and> cap = [cap_scatter xs cy cc]
     else cap = []"
    and f2a: "fig_data fig2a = fig_data fig2 @ cap" "fig_layout fig2a = fig_layout fig2"
    using xs by (auto simp: add_capacity_cap_Inr add_trace_simps df pal split: if_splits)
  from capB obtain flo where flo:
    "if kw_plot_cap kw \<and> logistic_floor m = Some True \<and> ''floor'' \<in> dom df
     then \<exists>fy cc. df ''floor'' = Some fy \<and> P ''cap'' = Some cc \<and>
            flo = [floor_scatter xs fy cc]
     else flo = []"
    and f3: "fig_data fig3 = fig_data fig2a @ flo" "fig_layout fig3 = fig_layout fig2a"
    using xs by (auto simp: add_capacity_floor_Inr add_trace_simps df pal split: if_splits)
  from 4 obtain band where band:
    "if kw_uncertainty kw \<and> (\<exists>n. uncertainty_samples m = Some n \<and> 0 < n)
     then \<exists>us ls uc. df ''yhat_upper'' = Some us \<and> df ''yhat_lower'' = Some ls \<and>
            P ''uncertainty'' = Some uc \<and>
            band = [upper_scatter xs us, lower_scatter xs ls uc]
     else band = []"
    and f4: "fig_data fig4 = fig_data fig3 @ band" "fig_layout fig4 = fig_layout fig3"
    using xs by (auto simp: add_uncertainty_Inr add_trace_simps df pal split: if_splits)
  show thesis
    by (rule that[OF xs ys c obs cap flo band _ _ 5 6])
       (simp_all add: 6 update_layout_data(1) update_layout_data(2)[OF 5]
          f4 f3 f2a f2 f1 add_trace_simps fig0_def)
qed

text \<open>
  The other direction: a call returns a figure whenever every key it reads is there,
  Plotly accepts the colours of the four roles, and the width and the height are at
  least 10. Only the band's columns depend on the options and the model.
\<close>

lemma early_steps_return:
  assumes ds: "''ds'' \<in> dom (frames H ! a)" and yhat: "''yhat'' \<in> dom (frames H ! a)"
    and roles: "{''forecast'', ''observed'', ''cap'', ''uncertainty''} \<subseteq> dom (dicts H ! p)"
    and valid: "\<forall>k \<in> {''forecast'', ''observed'', ''cap'', ''uncertainty''}.
                  \<forall>c. (dicts H ! p) k = Some c \<longrightarrow> V c"
    and hist: "case history m of None \<Rightarrow> True
               | Some hist \<Rightarrow> ''ds'' \<in> dom hist \<and> ''y'' \<in> dom hist"
  shows "\<exists>fig1. add_forecast V H fig a p = Inr fig1"
    and "\<exists>fig2. add_observed V H fig m p = Inr fig2"
    and "\<exists>fig3. add_capacity V H fig m a p = Inr fig3"
proof -
  define P where "P = dicts H ! p"
  define df where "df = frames H ! a"
  from roles valid have P: "\<exists>c. P ''forecast'' = Some c \<and> V c"
    "\<exists>c. P ''observed'' = Some c \<and> V c" "\<exists>c. P ''cap'' = Some c \<and> V c"
    by (auto simp: P_def)
  note ds' = ds[folded df_def] and yhat' = yhat[folded df_def]
  show "\<exists>fig1. add_forecast V H fig a p = Inr fig1"
    using ds' yhat' P(1) by (auto simp: add_forecast_Inr df_def[symmetric] P_def[symmetric])
  show "\<exists>fig2. add_observed V H fig m p = Inr fig2"
    using hist P(2) by (auto simp: add_observed_Inr P_def[symmetric] split: option.splits)
  have capA: "\<exists>fig3. add_capacity_cap V H g a p = Inr fig3" for g
    using ds' P(3) by (cases "''cap'' \<in> dom df")
      (auto simp: add_capacity_cap_Inr df_def[symmetric] P_def[symmetric])
  have capB: "\<exists>fig3. add_capacity_floor V H g m a p = Inr fig3" for g
    using ds' P(3)
    by (cases "logistic_floor m = Some True \<and> ''floor'' \<in> dom df")
      (auto simp: add_capacity_floor_Inr df_def[symmetric] P_def[symmetric])
  obtain g where g: "add_capacity_cap V H fig a p = Inr g" using capA by blast
  obtain g' where "add_capacity_floor V H g m a p = Inr g'" using capB by blast
  with g show "\<exists>fig3. add_capacity V H fig m a p = Inr fig3"
    by (auto simp: add_capacity_def bindE_simps)
qed

lemma plot_forecast_returns:
  assumes ds: "''ds'' \<in> dom (frames h ! fcst)" and yhat: "''yhat'' \<in> dom (frames h ! fcst)"
    and roles: "{''forecast'', ''observed'', ''cap'', ''uncertainty''}
                  \<subseteq> dom (resolved_palette h kw)"
    and valid: "\<forall>k \<in> {''forecast'', ''observed'', ''cap'', ''uncertainty''}.
                  \<forall>c. resolved_palette h kw k = Some c \<longrightarrow> V c"
    and size: "10 \<le> kw_width kw" "10 \<le> kw_height kw"
    and hist: "case history m of None \<Rightarrow> True
               | Some hist \<Rightarrow> ''ds'' \<in> dom hist \<and> ''y'' \<in> dom hist"
    and band: "kw_uncertainty kw \<and> (\<exists>n. uncertainty_samples m = Some n \<and> 0 < n) \<longrightarrow>
               ''yhat_upper'' \<in> dom (frames h ! fcst) \<and> ''yhat_lower'' \<in> dom (frames h ! fcst)"
  shows "\<exists>h' fig'. plot_forecast V h m fcst kw = (h', Inr fig')"
proof -
  define P where "P = resolved_palette h kw"
  define H where "H = h\<lparr>frames := frames h @ [frames h ! fcst], dicts := dicts h @ [P]\<rparr>"
  define a where "a = length (frames h)"
  define p where "p = length (dicts h)"
  note unf = plot_forecast_unfold[OF H_def[unfolded P_def] a_def p_def, of V m]
  have df: "frames H ! a = frames h ! fcst" by (simp add: H_def a_def)
  have pal: "dicts H ! p = P" by (simp add: H_def p_def)
  note early = early_steps_return[of H a p V m, unfolded df pal,
      OF ds yhat roles[folded P_def] valid[folded P_def] hist]
  from roles[folded P_def] valid[folded P_def]
  have unc: "\<exists>c. P ''uncertainty'' = Some c \<and> V c"
    by auto
  have 4: "kw_uncertainty kw \<Longrightarrow> \<exists>fig4. add_uncertainty V H fig m a p = Inr fig4" for fig
    using ds band unc by (cases "\<exists>n. uncertainty_samples m = Some n \<and> 0 < n")
      (auto simp: add_uncertainty_Inr df pal)
  obtain fig1 where f1: "add_forecast V H (target_figure kw) a p = Inr fig1"
    using early(1) by blast
  obtain fig2 where f2: "add_observed V H fig1 m p = Inr fig2" using early(2) by blast
  obtain fig3 where
    f3: "(if kw_plot_cap kw then add_capacity V H fig2 m a p else Inr fig2) = Inr fig3"
    using early(3) by (cases "kw_plot_cap kw") auto
  obtain fig4 where
    f4: "(if kw_uncertainty kw then add_uncertainty V H fig3 m a p else Inr fig3) = Inr fig4"
    using 4 by (cases "kw_uncertainty kw") auto
  obtain fig5 where
    f5: "update_layout_main fig4 (kw_width kw) (kw_height kw) (kw_xlabel kw) (kw_ylabel kw)
           = Inr fig5"
    using size by (simp add: update_layout_main_Inr)
  show ?thesis
    unfolding unf by (simp add: f1 f2 f3 f4 f5 bindE_simps)
qed

subsection \<open>The palette constant and the examples\<close>

text \<open>
  While the store holds the literal at \<open>DEFAULT_PALETTE\<close>, the resolved palette has
  all four roles, whatever the overrides.
\<close>

lemma roles_resolved:
  assumes "dicts h ! DEFAULT_PALETTE = DEFAULT_PALETTE_literal"
  shows "{''forecast'', ''observed'', ''cap'', ''uncertainty''} \<subseteq> dom (resolved_palette h kw)"
  by (simp add: assms DEFAULT_PALETTE_literal_def)

text \<open>
  That the store holds the literal at \<open>DEFAULT_PALETTE\<close> is an invariant of the
  module: it holds once the module is loaded, and no call breaks it.
\<close>

lemma module_loaded_intact:
  "DEFAULT_PALETTE < length (dicts module_loaded) \<and>
   dicts module_loaded ! DEFAULT_PALETTE = DEFAULT_PALETTE_literal"
  by (simp add: module_loaded_def DEFAULT_PALETTE_def)

lemma intact_preserved:
  assumes "DEFAULT_PALETTE < length (dicts h)"
    and "dicts h ! DEFAULT_PALETTE = DEFAULT_PALETTE_literal"
    and call: "plot_forecast V h m fcst kw = (h', r)"
  shows "DEFAULT_PALETTE < length (dicts h') \<and>
         dicts h' ! DEFAULT_PALETTE = DEFAULT_PALETTE_literal"
proof -
  have "h' = fst (plot_forecast V h m fcst kw)" using call by simp
  then show ?thesis
    unfolding plot_forecast_heap using assms(1,2) by (simp add: nth_append)
qed

lemma example_heap_simps:
  "frames example_heap ! 0 = example_fcst"
  "frames example_heap ! Suc 0 = example_fcst_full"
  "dicts example_heap ! DEFAULT_PALETTE = DEFAULT_PALETTE_literal"
  "length (frames example_heap) = 2"
  "length (dicts example_heap) = 1"
  by (simp_all add: example_heap_def module_loaded_def DEFAULT_PALETTE_def)

text \<open>
  The example colour test accepts the four default colours, and the override
  \<^verbatim>\<open>#ABCDEF\<close> of the specification's example.
\<close>

lemma example_valid_defaults:
  assumes "dicts h ! DEFAULT_PALETTE = DEFAULT_PALETTE_literal"
    and "kw_colors kw = None \<or> kw_colors kw = Some [''forecast'' \<mapsto> ''#ABCDEF'']"
  shows "\<forall>k \<in> {''forecast'', ''observed'', ''cap'', ''uncertainty''}.
           \<forall>c. resolved_palette h kw k = Some c \<longrightarrow> example_valid_color c"
  using assms(2)
  by (auto simp: assms(1) DEFAULT_PALETTE_literal_def example_valid_color_def map_add_def)

lemma example_full_returns:
  assumes "10 \<le> kw_width kw" "10 \<le> kw_height kw"
    and "kw_colors kw = None \<or> kw_colors kw = Some [''forecast'' \<mapsto> ''#ABCDEF'']"
  shows "\<exists>h' fig'. plot_forecast example_valid_color example_heap example_fitted_model (Suc 0) kw
           = (h', Inr fig')"
  by (rule plot_forecast_returns[OF _ _ roles_resolved[OF example_heap_simps(3)]
        example_valid_defaults[OF example_heap_simps(3) assms(3)] assms(1,2)])
    (simp_all add: example_heap_simps example_fcst_full_def example_fitted_model_def)

lemma example_bare_returns:
  assumes "10 \<le> kw_width kw" "10 \<le> kw_height kw"
    and "kw_colors kw = None \<or> kw_colors kw = Some [''forecast'' \<mapsto> ''#ABCDEF'']"
  shows "\<exists>h' fig'. plot_forecast example_valid_color example_heap example_bare_model 0 kw
           = (h', Inr fig')"
  by (rule plot_forecast_returns[OF _ _ roles_resolved[OF example_heap_simps(3)]
        example_valid_defaults[OF example_heap_simps(3) assms(3)] assms(1,2)])
    (simp_all add: example_heap_simps example_fcst_def example_bare_model_def)

lemma default_kwargs_ok:
  "10 \<le> kw_width (default_kwargs :: 'v kwargs)" "10 \<le> kw_height (default_kwargs :: 'v kwargs)"
  "kw_colors (default_kwargs :: 'v kwargs) = None \<or>
   kw_colors (default_kwargs :: 'v kwargs) = Some [''forecast'' \<mapsto> ''#ABCDEF'']"
  by (simp_all add: default_kwargs_def)

lemma example_default_returns:
  "\<exists>h' fig'. plot_forecast example_valid_color example_heap example_fitted_model (Suc 0)
              default_kwargs = (h', Inr fig')"
  "\<exists>h' fig'. plot_forecast example_valid_color example_heap example_bare_model 0
              default_kwargs = (h', Inr fig')"
  by (rule example_full_returns example_bare_returns; simp add: default_kwargs_def)+

subsection \<open>What Plotly's validation raises\<close>

text \<open>
  A colour of the \<^verbatim>\<open>forecast\<close> role that Plotly refuses ends the call in
  \<^verbatim>\<open>_add_forecast\<close>, once the two columns and the colour have been found. A width
  or a height below 10 ends a call that would otherwise return.
\<close>

lemma invalid_forecast_colour_raises:
  assumes "''ds'' \<in> dom (frames h ! fcst)" and "''yhat'' \<in> dom (frames h ! fcst)"
    and "resolved_palette h kw ''forecast'' = Some c" and "\<not> V c"
  shows "snd (plot_forecast V h m fcst kw) = Inl ValueError"
proof -
  define P where "P = resolved_palette h kw"
  define H where "H = h\<lparr>frames := frames h @ [frames h ! fcst], dicts := dicts h @ [P]\<rparr>"
  define a where "a = length (frames h)"
  define p where "p = length (dicts h)"
  note unf = plot_forecast_unfold[OF H_def[unfolded P_def] a_def p_def, of V m]
  have df: "frames H ! a = frames h ! fcst" by (simp add: H_def a_def)
  have pal: "dicts H ! p = P" by (simp add: H_def p_def)
  from assms(1,2) obtain xs ys where "(frames h ! fcst) ''ds'' = Some xs"
    "(frames h ! fcst) ''yhat'' = Some ys" by blast
  with assms(3)[folded P_def] assms(4)
  have "add_forecast V H (target_figure kw) a p = Inl ValueError"
    by (simp add: add_forecast_def df pal df_getitem_def dict_getitem_def bindE_simps
        go_Scatter_simps)
  then show ?thesis unfolding unf by (simp add: bindE_simps)
qed

lemma small_size_raises:
  assumes ok: "plot_forecast V h m fcst kw = (h', Inr fig')"
    and small: "w < 10 \<or> hg < 10"
  shows "snd (plot_forecast V h m fcst (kw\<lparr>kw_width := w, kw_height := hg\<rparr>)) = Inl ValueError"
proof -
  define H where "H = h\<lparr>frames := frames h @ [frames h ! fcst],
       dicts := dicts h @ [resolved_palette h kw]\<rparr>"
  define a where "a = length (frames h)"
  define p where "p = length (dicts h)"
  note unf = plot_forecast_unfold[OF H_def a_def p_def, of V m]
  let ?kw = "kw\<lparr>kw_width := w, kw_height := hg\<rparr>"
  have H2: "H = h\<lparr>frames := frames h @ [frames h ! fcst],
       dicts := dicts h @ [resolved_palette h ?kw]\<rparr>"
    by (simp add: H_def)
  note unf2 = plot_forecast_unfold[OF H2 a_def p_def, of V m]
  from ok obtain fig1 fig2 fig3 fig4 where
    1: "add_forecast V H (target_figure kw) a p = Inr fig1" and
    2: "add_observed V H fig1 m p = Inr fig2" and
    3: "(if kw_plot_cap kw then add_capacity V H fig2 m a p else Inr fig2) = Inr fig3" and
    4: "(if kw_uncertainty kw then add_uncertainty V H fig3 m a p else Inr fig3) = Inr fig4"
    unfolding unf by (auto simp: bindE_Inr_iff)
  have 5: "update_layout_main fig4 w hg (kw_xlabel kw) (kw_ylabel kw) = Inl ValueError"
    using small by (auto simp: update_layout_main_def)
  show ?thesis
    unfolding unf2 by (simp add: 1 2 3 4 5 bindE_simps)
qed

section \<open>The claims\<close>

text \<open>
  Claim C9. Every call that returns has gone through the layout step, whatever traces
  were added: the figure's width and height are the \<^verbatim>\<open>width\<close> and \<^verbatim>\<open>height\<close>
  options, the margins are 60, 40, 60, 60 (left, right, top, bottom), the title is the
  empty string centred at 0.5, the axis titles are \<^verbatim>\<open>xlabel\<close> and \<^verbatim>\<open>ylabel\<close>, and
  the hover mode is \<^verbatim>\<open>x unified\<close>. The defaults of the four options are 800, 600,
  \<^verbatim>\<open>ds\<close> and \<^verbatim>\<open>y\<close>.
\<close>

theorem layout_applied_on_return:
  assumes "plot_forecast valid_color h m fcst kw = (h', Inr fig')"
  shows "layout_width (fig_layout fig') = Some (kw_width kw) \<and>
         layout_height (fig_layout fig') = Some (kw_height kw) \<and>
         margin_l (fig_layout fig') = Some 60 \<and> margin_r (fig_layout fig') = Some 40 \<and>
         margin_t (fig_layout fig') = Some 60 \<and> margin_b (fig_layout fig') = Some 60 \<and>
         title_text (fig_layout fig') = Some '''' \<and> title_x (fig_layout fig') = Some 0.5 \<and>
         xaxis_title (fig_layout fig') = Some (kw_xlabel kw) \<and>
         yaxis_title (fig_layout fig') = Some (kw_ylabel kw) \<and>
         hovermode (fig_layout fig') = Some ''x unified'' \<and>
         kw_width (default_kwargs :: 'v kwargs) = 800 \<and>
         kw_height (default_kwargs :: 'v kwargs) = 600 \<and>
         kw_xlabel (default_kwargs :: 'v kwargs) = ''ds'' \<and>
         kw_ylabel (default_kwargs :: 'v kwargs) = ''y''"
proof -
  from assms obtain fig4 fig5 where
    "update_layout_main fig4 (kw_width kw) (kw_height kw) (kw_xlabel kw) (kw_ylabel kw)
       = Inr fig5"
    and "fig' = update_layout_legend fig5 (kw_include_legend kw)"
    by (rule plot_forecast_InrE[OF _ refl refl])
  then show ?thesis
    by (auto simp: update_layout_main_Inr update_layout_legend_def default_kwargs_def)
qed

theorem layout_applied_on_return_witness:
  "\<exists>h' fig'. plot_forecast example_valid_color example_heap example_fitted_model (Suc 0) default_kwargs = (h', Inr fig') \<and>
     layout_width (fig_layout fig') = Some 800 \<and> layout_height (fig_layout fig') = Some 600 \<and>
     xaxis_title (fig_layout fig') = Some ''ds'' \<and> yaxis_title (fig_layout fig') = Some ''y'' \<and>
     hovermode (fig_layout fig') = Some ''x unified''"
proof -
  obtain h' fig' where
    eq: "plot_forecast example_valid_color example_heap example_fitted_model (Suc 0) default_kwargs = (h', Inr fig')"
    using example_default_returns(1) by blast
  from layout_applied_on_return[OF eq] eq show ?thesis
    by (auto simp: default_kwargs_def)
qed

text \<open>
  Claim C7. The caller's forecast table is the same after the call as before it. The
  call allocates one new table, a copy of the caller's, and every table that was in
  the store is left as it was; the steps are all handed the copy's address. After a
  second call with the same inputs the caller's table is still unchanged.
\<close>

theorem caller_table_unchanged:
  assumes valid: "fcst < length (frames h)"
    and call1: "plot_forecast valid_color h m fcst kw = (h1, r1)"
    and call2: "plot_forecast valid_color h1 m fcst kw = (h2, r2)"
  shows "frames h1 = frames h @ [frames h ! fcst] \<and>
         frames h1 ! fcst = frames h ! fcst \<and>
         take (length (frames h)) (frames h1) = frames h \<and>
         r1 = bindE (add_forecast valid_color h1 (target_figure kw)
                       (length (frames h)) (length (dicts h)))
                (\<lambda>fig1.
              bindE (add_observed valid_color h1 fig1 m (length (dicts h))) (\<lambda>fig2.
              bindE (if kw_plot_cap kw
                     then add_capacity valid_color h1 fig2 m
                            (length (frames h)) (length (dicts h))
                     else Inr fig2) (\<lambda>fig3.
              bindE (if kw_uncertainty kw
                     then add_uncertainty valid_color h1 fig3 m
                            (length (frames h)) (length (dicts h))
                     else Inr fig3) (\<lambda>fig4.
              bindE (update_layout_main fig4 (kw_width kw) (kw_height kw)
                       (kw_xlabel kw) (kw_ylabel kw)) (\<lambda>fig5.
              Inr (update_layout_legend fig5 (kw_include_legend kw))))))) \<and>
         frames h2 ! fcst = frames h ! fcst \<and>
         take (length (frames h)) (frames h2) = frames h"
proof -
  have h1: "h1 = fst (plot_forecast valid_color h m fcst kw)" using call1 by simp
  have h2: "h2 = fst (plot_forecast valid_color h1 m fcst kw)" using call2 by simp
  have f1: "frames h1 = frames h @ [frames h ! fcst]"
    unfolding h1 plot_forecast_heap by simp
  have f2: "frames h2 = frames h1 @ [frames h1 ! fcst]"
    unfolding h2 plot_forecast_heap by simp
  note r1 = plot_forecast_steps[OF call1]
  from valid have keep: "frames h1 ! fcst = frames h ! fcst"
    "take (length (frames h)) (frames h1) = frames h"
    "frames h2 ! fcst = frames h ! fcst" "take (length (frames h)) (frames h2) = frames h"
    by (simp_all add: f1 f2 nth_append)
  from f1 keep r1 show ?thesis by blast
qed

theorem caller_table_unchanged_witness:
  "\<exists>h1 r1 h2 r2.
     plot_forecast example_valid_color example_heap example_fitted_model (Suc 0) default_kwargs = (h1, r1) \<and>
     plot_forecast example_valid_color h1 example_fitted_model (Suc 0) default_kwargs = (h2, r2) \<and>
     frames h1 ! Suc 0 = example_fcst_full \<and> frames h2 ! Suc 0 = example_fcst_full \<and>
     take 2 (frames h2) = [example_fcst, example_fcst_full]"
proof -
  obtain h1 r1 where
    c1: "plot_forecast example_valid_color example_heap example_fitted_model (Suc 0) default_kwargs = (h1, r1)"
    by fastforce
  obtain h2 r2 where
    c2: "plot_forecast example_valid_color h1 example_fitted_model (Suc 0) default_kwargs = (h2, r2)"
    by fastforce
  have v: "Suc 0 < length (frames example_heap)" by (simp add: example_heap_def module_loaded_def)
  from caller_table_unchanged[OF v c1 c2] c1 c2 show ?thesis
    by (auto simp: example_heap_def module_loaded_def numeral_2_eq_2)
qed

text \<open>
  Claim C8. No call writes to the palette constant: after a call with any \<^verbatim>\<open>colors\<close>
  the dictionary at \<open>DEFAULT_PALETTE\<close> is what it was before, and the merge has gone
  into a new dictionary. So the palette a later call resolves is the stored default
  with that call's own overrides, whatever an earlier call was passed.
\<close>

theorem default_palette_never_mutated:
  assumes valid: "DEFAULT_PALETTE < length (dicts h)"
    and call1: "plot_forecast valid_color h m fcst kw = (h1, r1)"
    and call2: "plot_forecast valid_color h1 m' fcst' kw' = (h2, r2)"
  shows "dicts h1 ! DEFAULT_PALETTE = dicts h ! DEFAULT_PALETTE \<and>
         dicts h1 = dicts h @ [resolved_palette h kw] \<and>
         dicts h2 ! DEFAULT_PALETTE = dicts h ! DEFAULT_PALETTE \<and>
         dicts h2 = dicts h @ [resolved_palette h kw, resolved_palette h kw']"
proof -
  have h1: "h1 = fst (plot_forecast valid_color h m fcst kw)" using call1 by simp
  have h2: "h2 = fst (plot_forecast valid_color h1 m' fcst' kw')" using call2 by simp
  have d1: "dicts h1 = dicts h @ [resolved_palette h kw]"
    unfolding h1 plot_forecast_heap by simp
  have d2: "dicts h2 = dicts h1 @ [resolved_palette h1 kw']"
    unfolding h2 plot_forecast_heap by simp
  show ?thesis
    using valid by (simp add: d1 d2 nth_append)
qed

theorem default_palette_never_mutated_witness:
  "\<exists>h1 r1 h2 r2.
     plot_forecast example_valid_color example_heap example_fitted_model (Suc 0)
       (default_kwargs\<lparr>kw_colors := Some [''forecast'' \<mapsto> ''#ABCDEF'']\<rparr>) = (h1, r1) \<and>
     plot_forecast example_valid_color h1 example_bare_model 0 default_kwargs = (h2, r2) \<and>
     dicts h1 ! DEFAULT_PALETTE = DEFAULT_PALETTE_literal \<and>
     dicts h2 ! DEFAULT_PALETTE = DEFAULT_PALETTE_literal \<and>
     dicts h2 = [DEFAULT_PALETTE_literal,
                 DEFAULT_PALETTE_literal(''forecast'' \<mapsto> ''#ABCDEF''),
                 DEFAULT_PALETTE_literal]"
proof -
  obtain h1 r1 where
    c1: "plot_forecast example_valid_color example_heap example_fitted_model (Suc 0)
       (default_kwargs\<lparr>kw_colors := Some [''forecast'' \<mapsto> ''#ABCDEF'']\<rparr>) = (h1, r1)"
    by fastforce
  obtain h2 r2 where
    c2: "plot_forecast example_valid_color h1 example_bare_model 0 default_kwargs = (h2, r2)"
    by fastforce
  have v: "DEFAULT_PALETTE < length (dicts example_heap)"
    by (simp add: example_heap_def module_loaded_def DEFAULT_PALETTE_def)
  from default_palette_never_mutated[OF v c1 c2] c1 c2 show ?thesis
    by (auto simp: example_heap_def module_loaded_def DEFAULT_PALETTE_def default_kwargs_def)
qed

text \<open>
  The next three claims are about the traces a returning call has appended to the
  figure it was given (or to a new one). A trace of the module is told from the others
  by its label; the band's upper trace has no label and is told by its skipped hover.
\<close>

text \<open>
  Claim C5. The marker trace labelled \<^verbatim>\<open>Observed data points\<close> is added if and only
  if the model has a \<^verbatim>\<open>history\<close> attribute: without one no trace with that label is
  among the added ones; with one there is exactly one, over the history's \<^verbatim>\<open>ds\<close> and
  \<^verbatim>\<open>y\<close> columns, with markers of size 4 and opacity 1 in the colour of the
  \<^verbatim>\<open>observed\<close> role. Without a history the step returns the figure as it got it
  and raises nothing.
\<close>

theorem observed_trace_iff_history:
  assumes ok: "plot_forecast valid_color h m fcst kw = (h', Inr fig')"
  shows "\<exists>added. fig_data fig' = fig_data (target_figure kw) @ added \<and>
     (case history m of
        None \<Rightarrow> filter (\<lambda>t. scatter_name t = Some ''Observed data points'') added = []
      | Some hist \<Rightarrow>
          \<exists>xs ys c. hist ''ds'' = Some xs \<and> hist ''y'' = Some ys \<and>
            resolved_palette h kw ''observed'' = Some c \<and>
            filter (\<lambda>t. scatter_name t = Some ''Observed data points'') added =
              [\<lparr>scatter_x = xs, scatter_y = ys, scatter_mode = ''markers'',
                scatter_line = None,
                scatter_marker =
                  Some \<lparr>marker_color = c, marker_size = 4, marker_opacity = 1\<rparr>,
                scatter_name = Some ''Observed data points'',
                scatter_hoverinfo = None, scatter_showlegend = None,
                scatter_fill = None, scatter_fillcolor = None\<rparr>]) \<and>
     (history m = None \<longrightarrow> add_observed valid_color g fig m p = Inr fig)"
proof -
  define P where "P = resolved_palette h kw"
  define df where "df = frames h ! fcst"
  obtain xs ys c obs cap flo band where
    obs: "case history m of
       None \<Rightarrow> obs = []
     | Some hist \<Rightarrow> \<exists>hx hy oc. hist ''ds'' = Some hx \<and> hist ''y'' = Some hy \<and>
         P ''observed'' = Some oc \<and> obs = [observed_scatter hx hy oc]"
    and cap: "if kw_plot_cap kw \<and> ''cap'' \<in> dom df
     then \<exists>cy cc. df ''cap'' = Some cy \<and> P ''cap'' = Some cc \<and> cap = [cap_scatter xs cy cc]
     else cap = []"
    and flo: "if kw_plot_cap kw \<and> logistic_floor m = Some True \<and> ''floor'' \<in> dom df
     then \<exists>fy cc. df ''floor'' = Some fy \<and> P ''cap'' = Some cc \<and>
            flo = [floor_scatter xs fy cc]
     else flo = []"
    and band: "if kw_uncertainty kw \<and> (\<exists>n. uncertainty_samples m = Some n \<and> 0 < n)
     then \<exists>us ls uc. df ''yhat_upper'' = Some us \<and> df ''yhat_lower'' = Some ls \<and>
            P ''uncertainty'' = Some uc \<and>
            band = [upper_scatter xs us, lower_scatter xs ls uc]
     else band = []"
    and d: "fig_data fig' = fig_data (target_figure kw)
        @ [forecast_scatter xs ys c] @ obs @ cap @ flo @ band"
    by (rule plot_forecast_InrE[OF ok P_def df_def])
  let ?P = "\<lambda>t::'a scatter. scatter_name t = Some ''Observed data points''"
  have cap0: "filter ?P cap = []"
    using cap by (auto simp: cap_scatter_def split: if_splits)
  have flo0: "filter ?P flo = []"
    using flo by (auto simp: floor_scatter_def split: if_splits)
  have band0: "filter ?P band = []"
    using band by (auto simp: upper_scatter_def lower_scatter_def split: if_splits)
  have fc0: "\<not> ?P (forecast_scatter xs ys c)" by (simp add: forecast_scatter_def)
  have flt: "filter ?P ([forecast_scatter xs ys c] @ obs @ cap @ flo @ band) = filter ?P obs"
    using cap0 flo0 band0 fc0 by simp
  have main: "case history m of
        None \<Rightarrow> filter ?P obs = []
      | Some hist \<Rightarrow>
          \<exists>xs ys c. hist ''ds'' = Some xs \<and> hist ''y'' = Some ys \<and>
            P ''observed'' = Some c \<and>
            filter ?P obs =
              [\<lparr>scatter_x = xs, scatter_y = ys, scatter_mode = ''markers'',
                scatter_line = None,
                scatter_marker =
                  Some \<lparr>marker_color = c, marker_size = 4, marker_opacity = 1\<rparr>,
                scatter_name = Some ''Observed data points'',
                scatter_hoverinfo = None, scatter_showlegend = None,
                scatter_fill = None, scatter_fillcolor = None\<rparr>]"
    using obs by (cases "history m") (auto simp: observed_scatter_def)
  have skip: "history m = None \<longrightarrow> add_observed valid_color g fig m p = Inr fig"
    by (simp add: add_observed_def)
  note main' = main[folded flt, unfolded P_def]
  show ?thesis
    by (rule exI[where x="[forecast_scatter xs ys c] @ obs @ cap @ flo @ band"])
      (intro conjI d main' skip)
qed

theorem observed_trace_iff_history_witness:
  "\<exists>h' fig'.
     plot_forecast example_valid_color example_heap example_fitted_model (Suc 0) default_kwargs = (h', Inr fig') \<and>
     filter (\<lambda>t. scatter_name t = Some ''Observed data points'') (fig_data fig') =
       [\<lparr>scatter_x = [1, 2], scatter_y = [9, 21], scatter_mode = ''markers'',
         scatter_line = None,
         scatter_marker =
           Some \<lparr>marker_color = ''#FF6F00'', marker_size = 4, marker_opacity = 1\<rparr>,
         scatter_name = Some ''Observed data points'',
         scatter_hoverinfo = None, scatter_showlegend = None,
         scatter_fill = None, scatter_fillcolor = None\<rparr>]"
proof -
  obtain h' fig' where
    eq: "plot_forecast example_valid_color example_heap example_fitted_model (Suc 0) default_kwargs = (h', Inr fig')"
    using example_default_returns(1) by blast
  from observed_trace_iff_history[OF eq] eq show ?thesis
    by (auto simp: example_fitted_model_def example_heap_simps DEFAULT_PALETTE_literal_def
        default_kwargs_def new_Figure_def)
qed

text \<open>
  Claim C2. The dashed trace labelled \<^verbatim>\<open>Maximum capacity\<close>, over \<^verbatim>\<open>ds\<close> and
  \<^verbatim>\<open>cap\<close>, is added if and only if \<^verbatim>\<open>plot_cap\<close> is true and the table has a
  \<^verbatim>\<open>cap\<close> column. The dashed trace labelled \<^verbatim>\<open>Minimum capacity\<close>, over \<^verbatim>\<open>ds\<close>
  and \<^verbatim>\<open>floor\<close>, is added if and only if \<^verbatim>\<open>plot_cap\<close> is true, the model's
  \<^verbatim>\<open>logistic_floor\<close> is set and true, and the table has a \<^verbatim>\<open>floor\<close> column. Each
  condition stands alone: neither mentions the other trace or the other column.
\<close>

theorem capacity_traces_iff:
  assumes ok: "plot_forecast valid_color h m fcst kw = (h', Inr fig')"
  shows "\<exists>added. fig_data fig' = fig_data (target_figure kw) @ added \<and>
     (if kw_plot_cap kw \<and> ''cap'' \<in> dom (frames h ! fcst)
      then \<exists>xs ys c. (frames h ! fcst) ''ds'' = Some xs \<and> (frames h ! fcst) ''cap'' = Some ys \<and>
             resolved_palette h kw ''cap'' = Some c \<and>
             filter (\<lambda>t. scatter_name t = Some ''Maximum capacity'') added =
               [\<lparr>scatter_x = xs, scatter_y = ys, scatter_mode = ''lines'',
                 scatter_line =
                   Some \<lparr>line_color = Some c, line_width = None, line_dash = Some ''dash''\<rparr>,
                 scatter_marker = None, scatter_name = Some ''Maximum capacity'',
                 scatter_hoverinfo = None, scatter_showlegend = None,
                 scatter_fill = None, scatter_fillcolor = None\<rparr>]
      else filter (\<lambda>t. scatter_name t = Some ''Maximum capacity'') added = []) \<and>
     (if kw_plot_cap kw \<and> logistic_floor m = Some True \<and> ''floor'' \<in> dom (frames h ! fcst)
      then \<exists>xs ys c. (frames h ! fcst) ''ds'' = Some xs \<and> (frames h ! fcst) ''floor'' = Some ys \<and>
             resolved_palette h kw ''cap'' = Some c \<and>
             filter (\<lambda>t. scatter_name t = Some ''Minimum capacity'') added =
               [\<lparr>scatter_x = xs, scatter_y = ys, scatter_mode = ''lines'',
                 scatter_line =
                   Some \<lparr>line_color = Some c, line_width = None, line_dash = Some ''dash''\<rparr>,
                 scatter_marker = None, scatter_name = Some ''Minimum capacity'',
                 scatter_hoverinfo = None, scatter_showlegend = None,
                 scatter_fill = None, scatter_fillcolor = None\<rparr>]
      else filter (\<lambda>t. scatter_name t = Some ''Minimum capacity'') added = [])"
proof -
  define P where "P = resolved_palette h kw"
  define df where "df = frames h ! fcst"
  obtain xs ys c obs cap flo band where
    xs: "df ''ds'' = Some xs"
    and obs: "case history m of
       None \<Rightarrow> obs = []
     | Some hist \<Rightarrow> \<exists>hx hy oc. hist ''ds'' = Some hx \<and> hist ''y'' = Some hy \<and>
         P ''observed'' = Some oc \<and> obs = [observed_scatter hx hy oc]"
    and cap: "if kw_plot_cap kw \<and> ''cap'' \<in> dom df
     then \<exists>cy cc. df ''cap'' = Some cy \<and> P ''cap'' = Some cc \<and> cap = [cap_scatter xs cy cc]
     else cap = []"
    and flo: "if kw_plot_cap kw \<and> logistic_floor m = Some True \<and> ''floor'' \<in> dom df
     then \<exists>fy cc. df ''floor'' = Some fy \<and> P ''cap'' = Some cc \<and>
            flo = [floor_scatter xs fy cc]
     else flo = []"
    and band: "if kw_uncertainty kw \<and> (\<exists>n. uncertainty_samples m = Some n \<and> 0 < n)
     then \<exists>us ls uc. df ''yhat_upper'' = Some us \<and> df ''yhat_lower'' = Some ls \<and>
            P ''uncertainty'' = Some uc \<and>
            band = [upper_scatter xs us, lower_scatter xs ls uc]
     else band = []"
    and d: "fig_data fig' = fig_data (target_figure kw)
        @ [forecast_scatter xs ys c] @ obs @ cap @ flo @ band"
    by (rule plot_forecast_InrE[OF ok P_def df_def])
  let ?added = "[forecast_scatter xs ys c] @ obs @ cap @ flo @ band"
  let ?Max = "\<lambda>t::'a scatter. scatter_name t = Some ''Maximum capacity''"
  let ?Min = "\<lambda>t::'a scatter. scatter_name t = Some ''Minimum capacity''"
  have obs0: "filter ?Max obs = []" "filter ?Min obs = []"
    using obs by (cases "history m"; auto simp: observed_scatter_def)+
  have band0: "filter ?Max band = []" "filter ?Min band = []"
    using band by (auto simp: upper_scatter_def lower_scatter_def split: if_splits)
  have fc0: "\<not> ?Max (forecast_scatter xs ys c)" "\<not> ?Min (forecast_scatter xs ys c)"
    by (simp_all add: forecast_scatter_def)
  have cross: "filter ?Max flo = []" "filter ?Min cap = []"
    using cap flo by (auto simp: cap_scatter_def floor_scatter_def split: if_splits)
  have fltMax: "filter ?Max ?added = filter ?Max cap"
    using obs0 band0 fc0 cross by simp
  have fltMin: "filter ?Min ?added = filter ?Min flo"
    using obs0 band0 fc0 cross by simp
  have maxc: "if kw_plot_cap kw \<and> ''cap'' \<in> dom df
      then \<exists>xs ys c. df ''ds'' = Some xs \<and> df ''cap'' = Some ys \<and> P ''cap'' = Some c \<and>
             filter ?Max cap =
               [\<lparr>scatter_x = xs, scatter_y = ys, scatter_mode = ''lines'',
                 scatter_line =
                   Some \<lparr>line_color = Some c, line_width = None, line_dash = Some ''dash''\<rparr>,
                 scatter_marker = None, scatter_name = Some ''Maximum capacity'',
                 scatter_hoverinfo = None, scatter_showlegend = None,
                 scatter_fill = None, scatter_fillcolor = None\<rparr>]
      else filter ?Max cap = []"
    using cap xs by (auto simp: cap_scatter_def split: if_splits)
  have minc: "if kw_plot_cap kw \<and> logistic_floor m = Some True \<and> ''floor'' \<in> dom df
      then \<exists>xs ys c. df ''ds'' = Some xs \<and> df ''floor'' = Some ys \<and> P ''cap'' = Some c \<and>
             filter ?Min flo =
               [\<lparr>scatter_x = xs, scatter_y = ys, scatter_mode = ''lines'',
                 scatter_line =
                   Some \<lparr>line_color = Some c, line_width = None, line_dash = Some ''dash''\<rparr>,
                 scatter_marker = None, scatter_name = Some ''Minimum capacity'',
                 scatter_hoverinfo = None, scatter_showlegend = None,
                 scatter_fill = None, scatter_fillcolor = None\<rparr>]
      else filter ?Min flo = []"
    using flo xs by (auto simp: floor_scatter_def split: if_splits)
  note maxc' = maxc[folded fltMax, unfolded P_def df_def]
  note minc' = minc[folded fltMin, unfolded P_def df_def]
  show ?thesis
    by (rule exI[where x="?added"]) (intro conjI d maxc' minc')
qed

text \<open>
  All four outcomes occur: both traces (fitted model, table with both columns), the
  maximum alone (no \<^verbatim>\<open>logistic_floor\<close> on the model), the minimum alone (no
  \<^verbatim>\<open>cap\<close> column), and neither (\<^verbatim>\<open>plot_cap=False\<close>).
\<close>

theorem capacity_traces_iff_witness:
  "(\<exists>h' fig'.
     plot_forecast example_valid_color example_heap example_fitted_model (Suc 0) default_kwargs = (h', Inr fig') \<and>
     filter (\<lambda>t. scatter_name t = Some ''Maximum capacity'') (fig_data fig') =
       [\<lparr>scatter_x = [1, 2, 3], scatter_y = [50, 50, 50], scatter_mode = ''lines'',
         scatter_line =
           Some \<lparr>line_color = Some ''#000000'', line_width = None, line_dash = Some ''dash''\<rparr>,
         scatter_marker = None, scatter_name = Some ''Maximum capacity'',
         scatter_hoverinfo = None, scatter_showlegend = None,
         scatter_fill = None, scatter_fillcolor = None\<rparr>] \<and>
     filter (\<lambda>t. scatter_name t = Some ''Minimum capacity'') (fig_data fig') =
       [\<lparr>scatter_x = [1, 2, 3], scatter_y = [0, 0, 0], scatter_mode = ''lines'',
         scatter_line =
           Some \<lparr>line_color = Some ''#000000'', line_width = None, line_dash = Some ''dash''\<rparr>,
         scatter_marker = None, scatter_name = Some ''Minimum capacity'',
         scatter_hoverinfo = None, scatter_showlegend = None,
         scatter_fill = None, scatter_fillcolor = None\<rparr>]) \<and>
   (\<exists>h' fig'.
     plot_forecast example_valid_color example_heap example_bare_model (Suc 0) default_kwargs = (h', Inr fig') \<and>
     length (filter (\<lambda>t. scatter_name t = Some ''Maximum capacity'') (fig_data fig')) = 1 \<and>
     filter (\<lambda>t. scatter_name t = Some ''Minimum capacity'') (fig_data fig') = []) \<and>
   (\<exists>h' fig'.
     plot_forecast example_valid_color (example_heap\<lparr>frames := [example_fcst_full(''cap'' := None)]\<rparr>)
       example_fitted_model 0 default_kwargs = (h', Inr fig') \<and>
     filter (\<lambda>t. scatter_name t = Some ''Maximum capacity'') (fig_data fig') = [] \<and>
     length (filter (\<lambda>t. scatter_name t = Some ''Minimum capacity'') (fig_data fig')) = 1) \<and>
   (\<exists>h' fig'.
     plot_forecast example_valid_color example_heap example_fitted_model (Suc 0)
       (default_kwargs\<lparr>kw_plot_cap := False\<rparr>) = (h', Inr fig') \<and>
     filter (\<lambda>t. scatter_name t = Some ''Maximum capacity'') (fig_data fig') = [] \<and>
     filter (\<lambda>t. scatter_name t = Some ''Minimum capacity'') (fig_data fig') = [])"
proof -
  obtain h1 fig1 where
    eq1: "plot_forecast example_valid_color example_heap example_fitted_model (Suc 0) default_kwargs = (h1, Inr fig1)"
    using example_default_returns(1) by blast
  from capacity_traces_iff[OF eq1] eq1 have A: "\<exists>h' fig'.
     plot_forecast example_valid_color example_heap example_fitted_model (Suc 0) default_kwargs = (h', Inr fig') \<and>
     filter (\<lambda>t. scatter_name t = Some ''Maximum capacity'') (fig_data fig') =
       [\<lparr>scatter_x = [1, 2, 3], scatter_y = [50, 50, 50], scatter_mode = ''lines'',
         scatter_line =
           Some \<lparr>line_color = Some ''#000000'', line_width = None, line_dash = Some ''dash''\<rparr>,
         scatter_marker = None, scatter_name = Some ''Maximum capacity'',
         scatter_hoverinfo = None, scatter_showlegend = None,
         scatter_fill = None, scatter_fillcolor = None\<rparr>] \<and>
     filter (\<lambda>t. scatter_name t = Some ''Minimum capacity'') (fig_data fig') =
       [\<lparr>scatter_x = [1, 2, 3], scatter_y = [0, 0, 0], scatter_mode = ''lines'',
         scatter_line =
           Some \<lparr>line_color = Some ''#000000'', line_width = None, line_dash = Some ''dash''\<rparr>,
         scatter_marker = None, scatter_name = Some ''Minimum capacity'',
         scatter_hoverinfo = None, scatter_showlegend = None,
         scatter_fill = None, scatter_fillcolor = None\<rparr>]"
    by (auto simp: example_fitted_model_def example_fcst_full_def example_heap_simps
        DEFAULT_PALETTE_literal_def default_kwargs_def new_Figure_def)
  have "\<exists>h' fig'. plot_forecast example_valid_color example_heap example_bare_model (Suc 0) default_kwargs
          = (h', Inr fig')"
    by (rule plot_forecast_returns[OF _ _ roles_resolved[OF example_heap_simps(3)]
          example_valid_defaults[OF example_heap_simps(3) default_kwargs_ok(3)]
          default_kwargs_ok(1,2)])
      (simp_all add: example_heap_simps example_fcst_full_def example_bare_model_def)
  then obtain h2 fig2 where
    eq2: "plot_forecast example_valid_color example_heap example_bare_model (Suc 0) default_kwargs = (h2, Inr fig2)"
    by blast
  from capacity_traces_iff[OF eq2] eq2 have B: "\<exists>h' fig'.
     plot_forecast example_valid_color example_heap example_bare_model (Suc 0) default_kwargs = (h', Inr fig') \<and>
     length (filter (\<lambda>t. scatter_name t = Some ''Maximum capacity'') (fig_data fig')) = 1 \<and>
     filter (\<lambda>t. scatter_name t = Some ''Minimum capacity'') (fig_data fig') = []"
    by (auto simp: example_bare_model_def example_fcst_full_def example_heap_simps
        default_kwargs_def new_Figure_def)
  let ?h3 = "example_heap\<lparr>frames := [example_fcst_full(''cap'' := None)]\<rparr>"
  have h3: "frames ?h3 ! 0 = example_fcst_full(''cap'' := None)"
    "dicts ?h3 ! DEFAULT_PALETTE = DEFAULT_PALETTE_literal"
    by (simp_all add: example_heap_def module_loaded_def DEFAULT_PALETTE_def)
  have "\<exists>h' fig'. plot_forecast example_valid_color ?h3 example_fitted_model 0 default_kwargs = (h', Inr fig')"
    by (rule plot_forecast_returns[OF _ _ roles_resolved[OF h3(2)]
          example_valid_defaults[OF h3(2) default_kwargs_ok(3)] default_kwargs_ok(1,2)])
      (simp_all add: h3 example_fcst_full_def example_fitted_model_def)
  then obtain h3' fig3 where
    eq3: "plot_forecast example_valid_color ?h3 example_fitted_model 0 default_kwargs = (h3', Inr fig3)"
    by blast
  from capacity_traces_iff[OF eq3] eq3 have C: "\<exists>h' fig'.
     plot_forecast example_valid_color ?h3 example_fitted_model 0 default_kwargs = (h', Inr fig') \<and>
     filter (\<lambda>t. scatter_name t = Some ''Maximum capacity'') (fig_data fig') = [] \<and>
     length (filter (\<lambda>t. scatter_name t = Some ''Minimum capacity'') (fig_data fig')) = 1"
    by (auto simp: h3 example_heap_simps example_fitted_model_def example_fcst_full_def
        default_kwargs_def new_Figure_def)
  obtain h4 fig4 where
    eq4: "plot_forecast example_valid_color example_heap example_fitted_model (Suc 0)
       (default_kwargs\<lparr>kw_plot_cap := False\<rparr>) = (h4, Inr fig4)"
    using example_full_returns[of "default_kwargs\<lparr>kw_plot_cap := False\<rparr>"]
    by (auto simp: default_kwargs_def)
  from capacity_traces_iff[OF eq4] eq4 have D: "\<exists>h' fig'.
     plot_forecast example_valid_color example_heap example_fitted_model (Suc 0)
       (default_kwargs\<lparr>kw_plot_cap := False\<rparr>) = (h', Inr fig') \<and>
     filter (\<lambda>t. scatter_name t = Some ''Maximum capacity'') (fig_data fig') = [] \<and>
     filter (\<lambda>t. scatter_name t = Some ''Minimum capacity'') (fig_data fig') = []"
    by (auto simp: default_kwargs_def new_Figure_def)
  from A B C D show ?thesis by (intro conjI)
qed

text \<open>
  Claim C1. The band is added if and only if \<^verbatim>\<open>uncertainty\<close> is true and the model's
  \<^verbatim>\<open>uncertainty_samples\<close> is present and positive. When it is added, its two traces
  are the last two of the figure, the upper bound immediately before the lower bound:
  the upper one has line width 0, skipped hover and \<^verbatim>\<open>showlegend=False\<close>; the lower
  one has line width 0, fills to the previous trace (\<^verbatim>\<open>tonexty\<close>) in the colour of
  the \<^verbatim>\<open>uncertainty\<close> role and is labelled \<^verbatim>\<open>Uncertainty interval\<close>. No other
  added trace skips hover, fills, or carries that label; so without the condition the
  band is absent.
\<close>

theorem uncertainty_band_iff:
  assumes ok: "plot_forecast valid_color h m fcst kw = (h', Inr fig')"
  shows "\<exists>before.
     (\<forall>t \<in> set before. scatter_hoverinfo t \<noteq> Some ''skip'' \<and> scatter_fill t = None \<and>
        scatter_name t \<noteq> Some ''Uncertainty interval'') \<and>
     (if kw_uncertainty kw \<and> (\<exists>n. uncertainty_samples m = Some n \<and> 0 < n)
      then \<exists>xs us ls c.
             (frames h ! fcst) ''ds'' = Some xs \<and> (frames h ! fcst) ''yhat_upper'' = Some us \<and>
             (frames h ! fcst) ''yhat_lower'' = Some ls \<and>
             resolved_palette h kw ''uncertainty'' = Some c \<and>
             fig_data fig' = fig_data (target_figure kw) @ before @
               [\<lparr>scatter_x = xs, scatter_y = us, scatter_mode = ''lines'',
                 scatter_line =
                   Some \<lparr>line_color = None, line_width = Some 0, line_dash = None\<rparr>,
                 scatter_marker = None, scatter_name = None,
                 scatter_hoverinfo = Some ''skip'', scatter_showlegend = Some False,
                 scatter_fill = None, scatter_fillcolor = None\<rparr>,
                \<lparr>scatter_x = xs, scatter_y = ls, scatter_mode = ''lines'',
                 scatter_line =
                   Some \<lparr>line_color = None, line_width = Some 0, line_dash = None\<rparr>,
                 scatter_marker = None, scatter_name = Some ''Uncertainty interval'',
                 scatter_hoverinfo = Some ''skip'', scatter_showlegend = None,
                 scatter_fill = Some ''tonexty'', scatter_fillcolor = Some c\<rparr>]
      else fig_data fig' = fig_data (target_figure kw) @ before)"
proof -
  define P where "P = resolved_palette h kw"
  define df where "df = frames h ! fcst"
  obtain xs ys c obs cap flo band where
    xs: "df ''ds'' = Some xs"
    and obs: "case history m of
       None \<Rightarrow> obs = []
     | Some hist \<Rightarrow> \<exists>hx hy oc. hist ''ds'' = Some hx \<and> hist ''y'' = Some hy \<and>
         P ''observed'' = Some oc \<and> obs = [observed_scatter hx hy oc]"
    and cap: "if kw_plot_cap kw \<and> ''cap'' \<in> dom df
     then \<exists>cy cc. df ''cap'' = Some cy \<and> P ''cap'' = Some cc \<and> cap = [cap_scatter xs cy cc]
     else cap = []"
    and flo: "if kw_plot_cap kw \<and> logistic_floor m = Some True \<and> ''floor'' \<in> dom df
     then \<exists>fy cc. df ''floor'' = Some fy \<and> P ''cap'' = Some cc \<and>
            flo = [floor_scatter xs fy cc]
     else flo = []"
    and band: "if kw_uncertainty kw \<and> (\<exists>n. uncertainty_samples m = Some n \<and> 0 < n)
     then \<exists>us ls uc. df ''yhat_upper'' = Some us \<and> df ''yhat_lower'' = Some ls \<and>
            P ''uncertainty'' = Some uc \<and>
            band = [upper_scatter xs us, lower_scatter xs ls uc]
     else band = []"
    and d: "fig_data fig' = fig_data (target_figure kw)
        @ [forecast_scatter xs ys c] @ obs @ cap @ flo @ band"
    by (rule plot_forecast_InrE[OF ok P_def df_def])
  let ?before = "[forecast_scatter xs ys c] @ obs @ cap @ flo"
  let ?Q = "\<lambda>t::'a scatter. scatter_hoverinfo t \<noteq> Some ''skip'' \<and> scatter_fill t = None \<and>
        scatter_name t \<noteq> Some ''Uncertainty interval''"
  have q1: "\<forall>t \<in> set obs. ?Q t"
    using obs by (cases "history m") (auto simp: observed_scatter_def)
  have q2: "\<forall>t \<in> set cap. ?Q t"
    using cap by (auto simp: cap_scatter_def split: if_splits)
  have q3: "\<forall>t \<in> set flo. ?Q t"
    using flo by (auto simp: floor_scatter_def split: if_splits)
  have q0: "?Q (forecast_scatter xs ys c)" by (simp add: forecast_scatter_def)
  have before: "\<forall>t \<in> set ?before. ?Q t"
    using q0 q1 q2 q3 by auto
  have d': "fig_data fig' = fig_data (target_figure kw) @ ?before @ band"
    using d by simp
  have main: "if kw_uncertainty kw \<and> (\<exists>n. uncertainty_samples m = Some n \<and> 0 < n)
      then \<exists>xs us ls c.
             df ''ds'' = Some xs \<and> df ''yhat_upper'' = Some us \<and>
             df ''yhat_lower'' = Some ls \<and> P ''uncertainty'' = Some c \<and>
             fig_data fig' = fig_data (target_figure kw) @ ?before @
               [\<lparr>scatter_x = xs, scatter_y = us, scatter_mode = ''lines'',
                 scatter_line =
                   Some \<lparr>line_color = None, line_width = Some 0, line_dash = None\<rparr>,
                 scatter_marker = None, scatter_name = None,
                 scatter_hoverinfo = Some ''skip'', scatter_showlegend = Some False,
                 scatter_fill = None, scatter_fillcolor = None\<rparr>,
                \<lparr>scatter_x = xs, scatter_y = ls, scatter_mode = ''lines'',
                 scatter_line =
                   Some \<lparr>line_color = None, line_width = Some 0, line_dash = None\<rparr>,
                 scatter_marker = None, scatter_name = Some ''Uncertainty interval'',
                 scatter_hoverinfo = Some ''skip'', scatter_showlegend = None,
                 scatter_fill = Some ''tonexty'', scatter_fillcolor = Some c\<rparr>]
      else fig_data fig' = fig_data (target_figure kw) @ ?before"
  proof (cases "kw_uncertainty kw \<and> (\<exists>n. uncertainty_samples m = Some n \<and> 0 < n)")
    case True
    with band obtain us ls uc where "df ''yhat_upper'' = Some us" "df ''yhat_lower'' = Some ls"
      "P ''uncertainty'' = Some uc" "band = [upper_scatter xs us, lower_scatter xs ls uc]"
      by auto
    with True xs d' show ?thesis
      by (simp add: upper_scatter_def lower_scatter_def del: append.simps)
  next
    case False
    with band have "band = []" by simp
    with False d' show ?thesis by simp
  qed
  note main' = main[unfolded P_def df_def]
  show ?thesis
    by (rule exI[where x="?before"]) (intro conjI before main')
qed

theorem uncertainty_band_iff_witness:
  "\<exists>h' fig' before.
     plot_forecast example_valid_color example_heap example_fitted_model (Suc 0) default_kwargs = (h', Inr fig') \<and>
     fig_data fig' = before @
       [\<lparr>scatter_x = [1, 2, 3], scatter_y = [12, 22, 32], scatter_mode = ''lines'',
         scatter_line = Some \<lparr>line_color = None, line_width = Some 0, line_dash = None\<rparr>,
         scatter_marker = None, scatter_name = None,
         scatter_hoverinfo = Some ''skip'', scatter_showlegend = Some False,
         scatter_fill = None, scatter_fillcolor = None\<rparr>,
        \<lparr>scatter_x = [1, 2, 3], scatter_y = [8, 18, 28], scatter_mode = ''lines'',
         scatter_line = Some \<lparr>line_color = None, line_width = Some 0, line_dash = None\<rparr>,
         scatter_marker = None, scatter_name = Some ''Uncertainty interval'',
         scatter_hoverinfo = Some ''skip'', scatter_showlegend = None,
         scatter_fill = Some ''tonexty'',
         scatter_fillcolor = Some ''rgba(0, 114, 178, 0.2)''\<rparr>] \<and>
     list_all (\<lambda>t. scatter_hoverinfo t \<noteq> Some ''skip'') before"
proof -
  obtain h' fig' where
    eq: "plot_forecast example_valid_color example_heap example_fitted_model (Suc 0) default_kwargs = (h', Inr fig')"
    using example_default_returns(1) by blast
  from uncertainty_band_iff[OF eq] eq show ?thesis
    by (auto simp: example_fitted_model_def example_fcst_full_def example_heap_simps
        DEFAULT_PALETTE_literal_def default_kwargs_def new_Figure_def list_all_iff)
qed

text \<open>The steps that add nothing when the model and the table give them nothing.\<close>

lemma steps_skipped:
  "history m = None \<Longrightarrow> add_observed V H fig m p = Inr fig"
  "''cap'' \<notin> dom (frames H ! a) \<Longrightarrow> logistic_floor m \<noteq> Some True \<Longrightarrow>
     add_capacity V H fig m a p = Inr fig"
  "\<not> (\<exists>n. uncertainty_samples m = Some n \<and> 0 < n) \<Longrightarrow>
     add_uncertainty V H fig m a p = Inr fig"
  by (auto simp: add_observed_def add_capacity_def add_capacity_cap_def add_capacity_floor_def
      add_uncertainty_def bindE_simps split: option.splits)

text \<open>
  Claim C3. Take a table whose only columns are \<^verbatim>\<open>ds\<close> and \<^verbatim>\<open>yhat\<close>, a model
  with none of the three optional attributes, no figure passed in, and the palette
  constant as the module defined it; let Plotly accept the width, the height and the
  colour of the \<^verbatim>\<open>forecast\<close> role (as it does for the defaults, 800, 600 and
  \<^verbatim>\<open>#0D47A1\<close>). Then the call returns a figure with exactly one trace, the forecast
  line over the table's \<^verbatim>\<open>ds\<close> and \<^verbatim>\<open>yhat\<close> with line width 2 and the label
  \<^verbatim>\<open>Forecast\<close>, both when \<^verbatim>\<open>uncertainty\<close> and \<^verbatim>\<open>plot_cap\<close> are passed as false
  and when every option has its default. With the defaults the figure is moreover 800
  wide and 600 high and its legend is hidden.
\<close>

theorem bare_inputs_give_one_trace:
  assumes cols: "dom (frames h ! fcst) = {''ds'', ''yhat''}"
    and bare: "history m = None" "logistic_floor m = None" "uncertainty_samples m = None"
    and nofig: "kw_fig kw = None"
    and intact: "dicts h ! DEFAULT_PALETTE = DEFAULT_PALETTE_literal"
    and opts: "(\<not> kw_uncertainty kw \<and> \<not> kw_plot_cap kw) \<or> kw = default_kwargs"
    and size: "10 \<le> kw_width kw" "10 \<le> kw_height kw"
    and colour: "\<forall>c. resolved_palette h kw ''forecast'' = Some c \<longrightarrow> valid_color c"
  shows "\<exists>xs ys c fig'.
           (frames h ! fcst) ''ds'' = Some xs \<and> (frames h ! fcst) ''yhat'' = Some ys \<and>
           resolved_palette h kw ''forecast'' = Some c \<and>
           snd (plot_forecast valid_color h m fcst kw) = Inr fig' \<and>
           fig_data fig' =
             [\<lparr>scatter_x = xs, scatter_y = ys, scatter_mode = ''lines'',
               scatter_line =
                 Some \<lparr>line_color = Some c, line_width = Some 2, line_dash = None\<rparr>,
               scatter_marker = None, scatter_name = Some ''Forecast'',
               scatter_hoverinfo = None, scatter_showlegend = None,
               scatter_fill = None, scatter_fillcolor = None\<rparr>] \<and>
           (kw = default_kwargs \<longrightarrow>
              c = ''#0D47A1'' \<and>
              layout_width (fig_layout fig') = Some 800 \<and>
              layout_height (fig_layout fig') = Some 600 \<and>
              showlegend (fig_layout fig') = Some False)"
proof -
  define P where "P = resolved_palette h kw"
  define df where "df = frames h ! fcst"
  define H where "H = h\<lparr>frames := frames h @ [frames h ! fcst], dicts := dicts h @ [P]\<rparr>"
  define a where "a = length (frames h)"
  define p where "p = length (dicts h)"
  note unf = plot_forecast_unfold[OF H_def[unfolded P_def] a_def p_def, of valid_color m]
  have tbl: "frames H ! a = df" by (simp add: H_def a_def df_def)
  have pal: "dicts H ! p = P" by (simp add: H_def p_def)
  from cols obtain xs ys where xs: "df ''ds'' = Some xs" and ys: "df ''yhat'' = Some ys"
    unfolding df_def by (metis domD insertI1 insertI2)
  from roles_resolved[OF intact, of kw] obtain c where c: "P ''forecast'' = Some c"
    unfolding P_def by (metis domD insert_subset)
  have vc: "valid_color c" by (rule colour[rule_format, OF c[unfolded P_def]])
  have nocap: "''cap'' \<notin> dom (frames H ! a)" unfolding tbl df_def cols by simp
  have nofloor: "logistic_floor m \<noteq> Some True" using bare(2) by simp
  have noband: "\<not> (\<exists>n. uncertainty_samples m = Some n \<and> 0 < n)" using bare(3) by simp
  have f1: "add_forecast valid_color H (target_figure kw) a p =
              Inr (add_trace new_Figure (forecast_scatter xs ys c))"
    using xs ys c vc by (simp add: add_forecast_Inr tbl pal nofig)
  obtain fig5 where f5: "update_layout_main (add_trace new_Figure (forecast_scatter xs ys c))
      (kw_width kw) (kw_height kw) (kw_xlabel kw) (kw_ylabel kw) = Inr fig5"
    using size by (simp add: update_layout_main_Inr)
  define fig' where "fig' = update_layout_legend fig5 (kw_include_legend kw)"
  have r: "snd (plot_forecast valid_color h m fcst kw) = Inr fig'"
    unfolding unf
    by (simp add: f1 f5 fig'_def bindE_simps steps_skipped(1)[OF bare(1)]
        steps_skipped(2)[OF nocap nofloor] steps_skipped(3)[OF noband])
  have data: "fig_data fig' = [forecast_scatter xs ys c]"
    unfolding fig'_def
    by (simp add: update_layout_data(1) update_layout_data(2)[OF f5] add_trace_simps
        new_Figure_def)
  have dflt: "kw = default_kwargs \<longrightarrow>
              c = ''#0D47A1'' \<and>
              layout_width (fig_layout fig') = Some 800 \<and>
              layout_height (fig_layout fig') = Some 600 \<and>
              showlegend (fig_layout fig') = Some False"
    using c intact f5
    by (auto simp: P_def fig'_def default_kwargs_def update_layout_legend_def
        update_layout_main_Inr DEFAULT_PALETTE_literal_def)
  show ?thesis
    by (intro exI[where x=xs] exI[where x=ys] exI[where x=c] exI[where x=fig'] conjI
        xs[unfolded df_def] ys[unfolded df_def] c[unfolded P_def] r
        data[unfolded forecast_scatter_def] dflt)
qed

theorem bare_inputs_give_one_trace_witness:
  "(\<exists>fig'. snd (plot_forecast example_valid_color example_heap example_bare_model 0
                  default_kwargs) = Inr fig' \<and>
     fig_data fig' =
       [\<lparr>scatter_x = [1, 2, 3], scatter_y = [1, 2, 3], scatter_mode = ''lines'',
         scatter_line =
           Some \<lparr>line_color = Some ''#0D47A1'', line_width = Some 2, line_dash = None\<rparr>,
         scatter_marker = None, scatter_name = Some ''Forecast'',
         scatter_hoverinfo = None, scatter_showlegend = None,
         scatter_fill = None, scatter_fillcolor = None\<rparr>] \<and>
     layout_width (fig_layout fig') = Some 800 \<and>
     layout_height (fig_layout fig') = Some 600 \<and>
     showlegend (fig_layout fig') = Some False) \<and>
   (\<exists>fig'. snd (plot_forecast example_valid_color example_heap example_bare_model 0
                  (default_kwargs\<lparr>kw_uncertainty := False, kw_plot_cap := False,
                     kw_width := 640, kw_height := 480\<rparr>)) = Inr fig' \<and>
     map scatter_name (fig_data fig') = [Some ''Forecast''])"
proof -
  have cols: "dom (frames example_heap ! 0) = {''ds'', ''yhat''}"
    by (auto simp: example_heap_simps example_fcst_def)
  have opts: "(\<not> kw_uncertainty (default_kwargs :: int kwargs) \<and>
               \<not> kw_plot_cap (default_kwargs :: int kwargs)) \<or>
              (default_kwargs :: int kwargs) = default_kwargs"
    by simp
  have colour: "\<forall>c. resolved_palette example_heap (default_kwargs :: int kwargs) ''forecast''
                    = Some c \<longrightarrow> example_valid_color c"
    using example_valid_defaults[OF example_heap_simps(3) default_kwargs_ok(3)] by simp
  let ?kw = "default_kwargs\<lparr>kw_uncertainty := False, kw_plot_cap := False,
                     kw_width := 640, kw_height := 480\<rparr> :: int kwargs"
  have ok: "kw_colors ?kw = None \<or> kw_colors ?kw = Some [''forecast'' \<mapsto> ''#ABCDEF'']"
    "(\<not> kw_uncertainty ?kw \<and> \<not> kw_plot_cap ?kw) \<or> ?kw = default_kwargs"
    "10 \<le> kw_width ?kw" "10 \<le> kw_height ?kw" "kw_fig ?kw = None"
    by (simp_all add: default_kwargs_def)
  have colour2: "\<forall>c. resolved_palette example_heap ?kw ''forecast'' = Some c
                    \<longrightarrow> example_valid_color c"
    using example_valid_defaults[OF example_heap_simps(3) ok(1)] by simp
  from bare_inputs_give_one_trace[OF cols _ _ _ _ example_heap_simps(3) opts
      default_kwargs_ok(1,2) colour, of example_bare_model]
  have A: "\<exists>fig'. snd (plot_forecast example_valid_color example_heap example_bare_model 0
                  default_kwargs) = Inr fig' \<and>
     fig_data fig' =
       [\<lparr>scatter_x = [1, 2, 3], scatter_y = [1, 2, 3], scatter_mode = ''lines'',
         scatter_line =
           Some \<lparr>line_color = Some ''#0D47A1'', line_width = Some 2, line_dash = None\<rparr>,
         scatter_marker = None, scatter_name = Some ''Forecast'',
         scatter_hoverinfo = None, scatter_showlegend = None,
         scatter_fill = None, scatter_fillcolor = None\<rparr>] \<and>
     layout_width (fig_layout fig') = Some 800 \<and>
     layout_height (fig_layout fig') = Some 600 \<and>
     showlegend (fig_layout fig') = Some False"
    by (auto simp: example_bare_model_def default_kwargs_def example_heap_simps
        example_fcst_def)
  from bare_inputs_give_one_trace[OF cols _ _ _ ok(5) example_heap_simps(3) ok(2,3,4) colour2,
      of example_bare_model]
  have B: "\<exists>fig'. snd (plot_forecast example_valid_color example_heap example_bare_model 0 ?kw)
                   = Inr fig' \<and>
     map scatter_name (fig_data fig') = [Some ''Forecast'']"
    by (auto simp: example_bare_model_def)
  from A B show ?thesis by (intro conjI)
qed

text \<open>
  The steps look the palette up under the four role names only, so two stores that
  agree on the tables and on those four entries give the same figures.
\<close>

lemma steps_read_four_roles:
  assumes fr: "frames H1 = frames H2"
    and f: "(dicts H1 ! p) ''forecast'' = (dicts H2 ! p) ''forecast''"
    and ob: "(dicts H1 ! p) ''observed'' = (dicts H2 ! p) ''observed''"
    and cp: "(dicts H1 ! p) ''cap'' = (dicts H2 ! p) ''cap''"
    and un: "(dicts H1 ! p) ''uncertainty'' = (dicts H2 ! p) ''uncertainty''"
  shows "add_forecast V H1 fig a p = add_forecast V H2 fig a p"
    and "add_observed V H1 fig m p = add_observed V H2 fig m p"
    and "add_capacity V H1 fig m a p = add_capacity V H2 fig m a p"
    and "add_uncertainty V H1 fig m a p = add_uncertainty V H2 fig m a p"
  by (simp_all add: add_forecast_def add_observed_def add_capacity_def add_capacity_cap_def
      add_capacity_floor_def add_uncertainty_def dict_getitem_def fr f ob cp un
      cong: if_cong option.case_cong)

text \<open>
  Claim C4. With the palette constant as the module defined it, the palette a call
  resolves (the dictionary it allocates) is the default with the \<^verbatim>\<open>colors\<close> entries
  on top, key by key. All four roles are in it. Every entry of \<^verbatim>\<open>colors\<close> is stored
  in it, recognised or not; the figure depends on \<^verbatim>\<open>colors\<close> through the four roles
  only, so the other keys are never used. The forecast trace takes the colour the
  resolved palette has for \<^verbatim>\<open>forecast\<close>; with \<^verbatim>\<open>colors={"forecast": "#ABCDEF"}\<close>
  that is \<^verbatim>\<open>#ABCDEF\<close> and the other three roles keep their defaults.
\<close>

theorem palette_merge:
  assumes intact: "dicts h ! DEFAULT_PALETTE = DEFAULT_PALETTE_literal"
    and call: "plot_forecast valid_color h m fcst kw = (h', r)"
    and cs: "cs = (case kw_colors kw of None \<Rightarrow> Map.empty | Some c \<Rightarrow> c)"
    and eff: "eff = dicts h' ! length (dicts h)"
  shows "eff = DEFAULT_PALETTE_literal ++ cs \<and>
         (\<forall>k. eff k = (case cs k of Some v \<Rightarrow> Some v | None \<Rightarrow> DEFAULT_PALETTE_literal k)) \<and>
         {''forecast'', ''observed'', ''cap'', ''uncertainty''} \<subseteq> dom eff \<and>
         (\<forall>k v. cs k = Some v \<longrightarrow> eff k = Some v) \<and>
         (\<forall>fig'. r = Inr fig' \<longrightarrow>
            (\<exists>xs ys c. eff ''forecast'' = Some c \<and>
               fig_data fig' ! length (fig_data (target_figure kw)) =
                 \<lparr>scatter_x = xs, scatter_y = ys, scatter_mode = ''lines'',
                  scatter_line =
                    Some \<lparr>line_color = Some c, line_width = Some 2, line_dash = None\<rparr>,
                  scatter_marker = None, scatter_name = Some ''Forecast'',
                  scatter_hoverinfo = None, scatter_showlegend = None,
                  scatter_fill = None, scatter_fillcolor = None\<rparr>)) \<and>
         (\<forall>cs2. (\<forall>k \<in> {''forecast'', ''observed'', ''cap'', ''uncertainty''}. cs2 k = cs k) \<longrightarrow>
            snd (plot_forecast valid_color h m fcst (kw\<lparr>kw_colors := Some cs2\<rparr>)) = r) \<and>
         (kw_colors kw = Some [''forecast'' \<mapsto> ''#ABCDEF''] \<longrightarrow>
            eff ''forecast'' = Some ''#ABCDEF'' \<and> eff ''observed'' = Some ''#FF6F00'' \<and>
            eff ''cap'' = Some ''#000000'' \<and>
            eff ''uncertainty'' = Some ''rgba(0, 114, 178, 0.2)'')"
proof -
  have h': "h' = fst (plot_forecast valid_color h m fcst kw)" using call by simp
  have e: "eff = DEFAULT_PALETTE_literal ++ cs"
    unfolding eff h' plot_forecast_heap by (simp add: intact cs)
  have pointwise: "\<forall>k. eff k = (case cs k of Some v \<Rightarrow> Some v | None \<Rightarrow> DEFAULT_PALETTE_literal k)"
    unfolding e by (simp add: map_add_def)
  have roles: "{''forecast'', ''observed'', ''cap'', ''uncertainty''} \<subseteq> dom eff"
    unfolding e by (simp add: DEFAULT_PALETTE_literal_def)
  have stored: "\<forall>k v. cs k = Some v \<longrightarrow> eff k = Some v"
    unfolding e by (simp add: map_add_def)
  have trace: "\<forall>fig'. r = Inr fig' \<longrightarrow>
            (\<exists>xs ys c. eff ''forecast'' = Some c \<and>
               fig_data fig' ! length (fig_data (target_figure kw)) =
                 \<lparr>scatter_x = xs, scatter_y = ys, scatter_mode = ''lines'',
                  scatter_line =
                    Some \<lparr>line_color = Some c, line_width = Some 2, line_dash = None\<rparr>,
                  scatter_marker = None, scatter_name = Some ''Forecast'',
                  scatter_hoverinfo = None, scatter_showlegend = None,
                  scatter_fill = None, scatter_fillcolor = None\<rparr>)"
  proof (intro allI impI)
    fix fig' assume "r = Inr fig'"
    with call have ok: "plot_forecast valid_color h m fcst kw = (h', Inr fig')" by simp
    have effP: "eff = resolved_palette h kw" unfolding e by (simp add: intact cs)
    obtain xs ys c obs cap flo band where
      c: "eff ''forecast'' = Some c"
      and d: "fig_data fig' = fig_data (target_figure kw)
        @ [forecast_scatter xs ys c] @ obs @ cap @ flo @ band"
      by (rule plot_forecast_InrE[OF ok effP refl])
    from d have "fig_data fig' ! length (fig_data (target_figure kw)) = forecast_scatter xs ys c"
      by (simp add: nth_append)
    with c show "\<exists>xs ys c. eff ''forecast'' = Some c \<and>
               fig_data fig' ! length (fig_data (target_figure kw)) =
                 \<lparr>scatter_x = xs, scatter_y = ys, scatter_mode = ''lines'',
                  scatter_line =
                    Some \<lparr>line_color = Some c, line_width = Some 2, line_dash = None\<rparr>,
                  scatter_marker = None, scatter_name = Some ''Forecast'',
                  scatter_hoverinfo = None, scatter_showlegend = None,
                  scatter_fill = None, scatter_fillcolor = None\<rparr>"
      unfolding forecast_scatter_def by blast
  qed
  have unused: "\<forall>cs2. (\<forall>k \<in> {''forecast'', ''observed'', ''cap'', ''uncertainty''}. cs2 k = cs k) \<longrightarrow>
            snd (plot_forecast valid_color h m fcst (kw\<lparr>kw_colors := Some cs2\<rparr>)) = r"
  proof (intro allI impI)
    fix cs2 :: palette
    assume agree: "\<forall>k \<in> {''forecast'', ''observed'', ''cap'', ''uncertainty''}. cs2 k = cs k"
    define kw2 where "kw2 = kw\<lparr>kw_colors := Some cs2\<rparr>"
    define H2 where "H2 = fst (plot_forecast valid_color h m fcst kw2)"
    define r2 where "r2 = snd (plot_forecast valid_color h m fcst kw2)"
    have call2: "plot_forecast valid_color h m fcst kw2 = (H2, r2)" by (simp add: H2_def r2_def)
    have fr: "frames h' = frames H2" unfolding h' H2_def plot_forecast_heap by simp
    have p1: "dicts h' ! length (dicts h) = DEFAULT_PALETTE_literal ++ cs"
      using e eff by simp
    have p2: "dicts H2 ! length (dicts h) = DEFAULT_PALETTE_literal ++ cs2"
      unfolding H2_def plot_forecast_heap by (simp add: intact kw2_def)
    have ag: "(dicts h' ! length (dicts h)) ''forecast'' = (dicts H2 ! length (dicts h)) ''forecast''"
      "(dicts h' ! length (dicts h)) ''observed'' = (dicts H2 ! length (dicts h)) ''observed''"
      "(dicts h' ! length (dicts h)) ''cap'' = (dicts H2 ! length (dicts h)) ''cap''"
      "(dicts h' ! length (dicts h)) ''uncertainty'' = (dicts H2 ! length (dicts h)) ''uncertainty''"
      unfolding p1 p2 using agree by (simp_all add: map_add_def)
    note same = steps_read_four_roles[OF fr ag]
    have kwf: "kw_fig kw2 = kw_fig kw" "kw_plot_cap kw2 = kw_plot_cap kw"
      "kw_uncertainty kw2 = kw_uncertainty kw" "kw_width kw2 = kw_width kw"
      "kw_height kw2 = kw_height kw" "kw_xlabel kw2 = kw_xlabel kw"
      "kw_ylabel kw2 = kw_ylabel kw" "kw_include_legend kw2 = kw_include_legend kw"
      by (simp_all add: kw2_def)
    have "r2 = r"
      unfolding plot_forecast_steps[OF call2] plot_forecast_steps[OF call] kwf
      by (simp add: same cong: if_cong)
    then show "snd (plot_forecast valid_color h m fcst (kw\<lparr>kw_colors := Some cs2\<rparr>)) = r"
      by (simp add: r2_def kw2_def)
  qed
  have example: "kw_colors kw = Some [''forecast'' \<mapsto> ''#ABCDEF''] \<longrightarrow>
            eff ''forecast'' = Some ''#ABCDEF'' \<and> eff ''observed'' = Some ''#FF6F00'' \<and>
            eff ''cap'' = Some ''#000000'' \<and>
            eff ''uncertainty'' = Some ''rgba(0, 114, 178, 0.2)''"
    unfolding e cs by (simp add: DEFAULT_PALETTE_literal_def map_add_def)
  show ?thesis
    by (intro conjI e pointwise roles stored trace unused example)
qed

theorem palette_merge_witness:
  "\<exists>h' fig'.
     plot_forecast example_valid_color example_heap example_bare_model 0
       (default_kwargs\<lparr>kw_colors := Some [''forecast'' \<mapsto> ''#ABCDEF'']\<rparr>) = (h', Inr fig') \<and>
     dicts h' ! 1 = DEFAULT_PALETTE_literal(''forecast'' \<mapsto> ''#ABCDEF'') \<and>
     (dicts h' ! 1) ''forecast'' = Some ''#ABCDEF'' \<and>
     (dicts h' ! 1) ''observed'' = Some ''#FF6F00'' \<and>
     (dicts h' ! 1) ''cap'' = Some ''#000000'' \<and>
     (dicts h' ! 1) ''uncertainty'' = Some ''rgba(0, 114, 178, 0.2)'' \<and>
     scatter_line (fig_data fig' ! 0) =
       Some \<lparr>line_color = Some ''#ABCDEF'', line_width = Some 2, line_dash = None\<rparr>"
proof -
  let ?kw = "default_kwargs\<lparr>kw_colors := Some [''forecast'' \<mapsto> ''#ABCDEF'']\<rparr> :: int kwargs"
  obtain h' fig' where
    eq: "plot_forecast example_valid_color example_heap example_bare_model 0 ?kw = (h', Inr fig')"
    using example_bare_returns[of ?kw] by (auto simp: default_kwargs_def)
  note pm = palette_merge[OF example_heap_simps(3) eq refl refl]
  have len: "length (dicts example_heap) = 1" by (simp add: example_heap_simps)
  note c2 = conjunct2
  from pm[THEN conjunct1]
  have merged: "dicts h' ! 1 = DEFAULT_PALETTE_literal(''forecast'' \<mapsto> ''#ABCDEF'')"
    unfolding len by (simp add: default_kwargs_def)
  from pm[THEN c2, THEN c2, THEN c2, THEN c2, THEN c2, THEN c2]
  have roles: "(dicts h' ! 1) ''forecast'' = Some ''#ABCDEF''"
    "(dicts h' ! 1) ''observed'' = Some ''#FF6F00''"
    "(dicts h' ! 1) ''cap'' = Some ''#000000''"
    "(dicts h' ! 1) ''uncertainty'' = Some ''rgba(0, 114, 178, 0.2)''"
    unfolding len by (simp_all add: default_kwargs_def)
  from pm[THEN c2, THEN c2, THEN c2, THEN c2, THEN conjunct1]
  have "\<exists>xs ys c. (dicts h' ! 1) ''forecast'' = Some c \<and>
       fig_data fig' ! length (fig_data (target_figure ?kw)) =
                 \<lparr>scatter_x = xs, scatter_y = ys, scatter_mode = ''lines'',
                  scatter_line =
                    Some \<lparr>line_color = Some c, line_width = Some 2, line_dash = None\<rparr>,
                  scatter_marker = None, scatter_name = Some ''Forecast'',
                  scatter_hoverinfo = None, scatter_showlegend = None,
                  scatter_fill = None, scatter_fillcolor = None\<rparr>"
    unfolding len by blast
  with roles(1) have line: "scatter_line (fig_data fig' ! 0) =
       Some \<lparr>line_color = Some ''#ABCDEF'', line_width = Some 2, line_dash = None\<rparr>"
    by (auto simp: default_kwargs_def new_Figure_def)
  from eq merged roles line show ?thesis by blast
qed

text \<open>
  What \<^verbatim>\<open>_add_uncertainty\<close> raises when the model has samples and a bound column is
  missing: the upper column is read first, and no colour is validated before the
  lower column is read.
\<close>

lemma add_uncertainty_missing:
  assumes "\<exists>n. uncertainty_samples m = Some n \<and> 0 < n"
    and "''ds'' \<in> dom (frames h ! a)"
    and "''yhat_upper'' \<notin> dom (frames h ! a) \<or> ''yhat_lower'' \<notin> dom (frames h ! a)"
  shows "add_uncertainty V h fig m a p =
           Inl (KeyError (if ''yhat_upper'' \<notin> dom (frames h ! a)
                          then ''yhat_upper'' else ''yhat_lower''))"
  using assms
  by (auto simp: add_uncertainty_def bindE_def df_getitem_def go_Scatter_simps Let_def domIff
      split: option.splits)

text \<open>
  Claim C10. Let the table have \<^verbatim>\<open>ds\<close> and \<^verbatim>\<open>yhat\<close> but lack \<^verbatim>\<open>yhat_upper\<close> or
  \<^verbatim>\<open>yhat_lower\<close> (or both), the history if any have its two columns, the palette
  constant be as the module defined it, and Plotly accept the colours of the four
  roles, the width and the height. If \<^verbatim>\<open>uncertainty\<close> is false, or the model's
  sample count is absent or not positive, the call returns a figure: the bound columns
  are never read. If \<^verbatim>\<open>uncertainty\<close> is true and the sample count is positive, the
  call raises \<^verbatim>\<open>KeyError\<close> for the first missing bound column instead of leaving the
  band out.
\<close>

theorem band_columns_read_only_for_band:
  assumes ds: "''ds'' \<in> dom (frames h ! fcst)" and yhat: "''yhat'' \<in> dom (frames h ! fcst)"
    and intact: "dicts h ! DEFAULT_PALETTE = DEFAULT_PALETTE_literal"
    and hist: "case history m of None \<Rightarrow> True
               | Some hist \<Rightarrow> ''ds'' \<in> dom hist \<and> ''y'' \<in> dom hist"
    and missing: "''yhat_upper'' \<notin> dom (frames h ! fcst) \<or>
                  ''yhat_lower'' \<notin> dom (frames h ! fcst)"
    and valid: "\<forall>k \<in> {''forecast'', ''observed'', ''cap'', ''uncertainty''}.
                  \<forall>c. resolved_palette h kw k = Some c \<longrightarrow> valid_color c"
    and size: "10 \<le> kw_width kw" "10 \<le> kw_height kw"
  shows "if kw_uncertainty kw \<and> (\<exists>n. uncertainty_samples m = Some n \<and> 0 < n)
         then snd (plot_forecast valid_color h m fcst kw) =
                Inl (KeyError (if ''yhat_upper'' \<notin> dom (frames h ! fcst)
                               then ''yhat_upper'' else ''yhat_lower''))
         else \<exists>fig'. snd (plot_forecast valid_color h m fcst kw) = Inr fig'"
proof (cases "kw_uncertainty kw \<and> (\<exists>n. uncertainty_samples m = Some n \<and> 0 < n)")
  case False
  have "\<exists>h' fig'. plot_forecast valid_color h m fcst kw = (h', Inr fig')"
    using False
    by (intro plot_forecast_returns ds yhat hist roles_resolved[OF intact] valid size) blast
  then obtain h' fig' where "plot_forecast valid_color h m fcst kw = (h', Inr fig')" by blast
  then have "snd (plot_forecast valid_color h m fcst kw) = Inr fig'" by simp
  with False show ?thesis by auto
next
  case True
  define P where "P = resolved_palette h kw"
  define H where "H = h\<lparr>frames := frames h @ [frames h ! fcst], dicts := dicts h @ [P]\<rparr>"
  define a where "a = length (frames h)"
  define p where "p = length (dicts h)"
  note unf = plot_forecast_unfold[OF H_def[unfolded P_def] a_def p_def, of valid_color m]
  have df: "frames H ! a = frames h ! fcst" by (simp add: H_def a_def)
  have pal: "dicts H ! p = P" by (simp add: H_def p_def)
  note early = early_steps_return[of H a p valid_color m, unfolded df pal,
      OF ds yhat roles_resolved[OF intact, of kw, folded P_def] valid[folded P_def] hist]
  obtain fig1 where f1: "add_forecast valid_color H (target_figure kw) a p = Inr fig1"
    using early(1) by blast
  obtain fig2 where f2: "add_observed valid_color H fig1 m p = Inr fig2"
    using early(2) by blast
  obtain fig3 where
    f3: "(if kw_plot_cap kw then add_capacity valid_color H fig2 m a p else Inr fig2)
           = Inr fig3"
    using early(3) by (cases "kw_plot_cap kw") auto
  from True have samples: "\<exists>n. uncertainty_samples m = Some n \<and> 0 < n" by simp
  have f4: "add_uncertainty valid_color H fig3 m a p =
           Inl (KeyError (if ''yhat_upper'' \<notin> dom (frames h ! fcst)
                          then ''yhat_upper'' else ''yhat_lower''))"
    using add_uncertainty_missing[of m H a valid_color fig3 p, unfolded df,
        OF samples ds missing] .
  have "snd (plot_forecast valid_color h m fcst kw) =
          Inl (KeyError (if ''yhat_upper'' \<notin> dom (frames h ! fcst)
                               then ''yhat_upper'' else ''yhat_lower''))"
    unfolding unf using True by (simp add: f1 f2 f3 f4 bindE_simps)
  with True show ?thesis by simp
qed

theorem band_columns_read_only_for_band_witness:
  "snd (plot_forecast example_valid_color example_heap example_fitted_model 0 default_kwargs) =
     Inl (KeyError ''yhat_upper'') \<and>
   (\<exists>fig'. snd (plot_forecast example_valid_color example_heap example_fitted_model 0
                   (default_kwargs\<lparr>kw_uncertainty := False\<rparr>)) = Inr fig') \<and>
   (\<exists>fig'. snd (plot_forecast example_valid_color example_heap example_bare_model 0
                   default_kwargs) = Inr fig')"
proof -
  have ds: "''ds'' \<in> dom (frames example_heap ! 0)"
    and yhat: "''yhat'' \<in> dom (frames example_heap ! 0)"
    and missing: "''yhat_upper'' \<notin> dom (frames example_heap ! 0) \<or>
                  ''yhat_lower'' \<notin> dom (frames example_heap ! 0)"
    by (simp_all add: example_heap_simps example_fcst_def)
  have hist: "case history example_fitted_model of None \<Rightarrow> True
               | Some hist \<Rightarrow> ''ds'' \<in> dom hist \<and> ''y'' \<in> dom hist"
    by (simp add: example_fitted_model_def)
  have hist0: "case history example_bare_model of None \<Rightarrow> True
               | Some hist \<Rightarrow> ''ds'' \<in> dom hist \<and> ''y'' \<in> dom hist"
    by (simp add: example_bare_model_def)
  let ?kw = "default_kwargs\<lparr>kw_uncertainty := False\<rparr> :: int kwargs"
  have ok: "10 \<le> kw_width ?kw" "10 \<le> kw_height ?kw"
    "kw_colors ?kw = None \<or> kw_colors ?kw = Some [''forecast'' \<mapsto> ''#ABCDEF'']"
    by (simp_all add: default_kwargs_def)
  note vd = example_valid_defaults[OF example_heap_simps(3) default_kwargs_ok(3)]
  note vk = example_valid_defaults[OF example_heap_simps(3) ok(3)]
  note fitted = band_columns_read_only_for_band[OF ds yhat example_heap_simps(3) hist missing
      vd default_kwargs_ok(1,2)]
  note fitted_off = band_columns_read_only_for_band[OF ds yhat example_heap_simps(3) hist
      missing vk ok(1,2)]
  note bare = band_columns_read_only_for_band[OF ds yhat example_heap_simps(3) hist0 missing
      vd default_kwargs_ok(1,2)]
  from fitted fitted_off bare
  show ?thesis
    by (simp add: default_kwargs_def example_fitted_model_def example_bare_model_def
        example_heap_simps example_fcst_def)
qed

text \<open>
  The legend of a returned figure. Without \<^verbatim>\<open>include_legend\<close> the second
  \<^verbatim>\<open>update_layout\<close> call sets \<^verbatim>\<open>showlegend=False\<close>, whatever the traces say. With
  it, the call sets the legend's orientation, anchor and position and nothing else:
  \<^verbatim>\<open>showlegend\<close> stays what the figure had, unset for a new figure.
\<close>

lemma legend_of_result:
  assumes ok: "plot_forecast valid_color h m fcst kw = (h', Inr fig')"
  shows "showlegend (fig_layout fig') =
           (if kw_include_legend kw then showlegend (fig_layout (target_figure kw))
            else Some False)"
    and "kw_include_legend kw \<Longrightarrow>
           legend_orientation (fig_layout fig') = Some ''h'' \<and>
           legend_yanchor (fig_layout fig') = Some ''bottom'' \<and>
           legend_y (fig_layout fig') = Some 1.02"
proof -
  obtain fig4 fig5 where l: "fig_layout fig4 = fig_layout (target_figure kw)"
    and u: "update_layout_main fig4 (kw_width kw) (kw_height kw) (kw_xlabel kw) (kw_ylabel kw)
              = Inr fig5"
    and f: "fig' = update_layout_legend fig5 (kw_include_legend kw)"
    by (rule plot_forecast_InrE[OF ok refl refl])
  from u l have s5: "showlegend (fig_layout fig5) = showlegend (fig_layout (target_figure kw))"
    by (auto simp: update_layout_main_Inr)
  show "showlegend (fig_layout fig') =
           (if kw_include_legend kw then showlegend (fig_layout (target_figure kw))
            else Some False)"
    by (simp add: f s5 update_layout_legend_def)
  show "legend_orientation (fig_layout fig') = Some ''h'' \<and>
           legend_yanchor (fig_layout fig') = Some ''bottom'' \<and>
           legend_y (fig_layout fig') = Some 1.02" if "kw_include_legend kw"
    using that by (simp add: f update_layout_legend_def)
qed

text \<open>
  Claim C6 says that with \<^verbatim>\<open>include_legend\<close> true the returned figure has a visible
  horizontal legend, and the docstring says the option shows a legend. The code does
  not do so on a figure whose legend is hidden, and a figure this function returned
  under its defaults is one: passed back in with \<^verbatim>\<open>include_legend=True\<close>, it comes
  out with the horizontal legend configured and \<^verbatim>\<open>showlegend\<close> still false. The
  first half of the claim (hidden when the option is false) is the first part of
  \<open>legend_of_result\<close>.
\<close>

theorem legend_stays_hidden_on_reused_figure:
  "\<exists>h1 fig1 h2 fig2.
     plot_forecast example_valid_color example_heap example_bare_model 0 default_kwargs = (h1, Inr fig1) \<and>
     plot_forecast example_valid_color h1 example_bare_model 0
       (default_kwargs\<lparr>kw_fig := Some fig1, kw_include_legend := True\<rparr>) = (h2, Inr fig2) \<and>
     legend_orientation (fig_layout fig2) = Some ''h'' \<and>
     legend_yanchor (fig_layout fig2) = Some ''bottom'' \<and>
     showlegend (fig_layout fig2) = Some False"
proof -
  obtain h1 fig1 where
    c1: "plot_forecast example_valid_color example_heap example_bare_model 0 default_kwargs = (h1, Inr fig1)"
    using example_default_returns(2) by blast
  have hidden1: "showlegend (fig_layout fig1) = Some False"
    using legend_of_result(1)[OF c1] by (simp add: default_kwargs_def)
  have h1: "h1 = fst (plot_forecast example_valid_color example_heap example_bare_model 0 default_kwargs)"
    using c1 by simp
  have fr: "frames h1 ! 0 = example_fcst"
    unfolding h1 plot_forecast_heap by (simp add: example_heap_def module_loaded_def)
  have pal: "dicts h1 ! DEFAULT_PALETTE = DEFAULT_PALETTE_literal"
    unfolding h1 plot_forecast_heap by (simp add: example_heap_def module_loaded_def DEFAULT_PALETTE_def)
  let ?kw = "default_kwargs\<lparr>kw_fig := Some fig1, kw_include_legend := True\<rparr>"
  have "\<exists>h2 fig2. plot_forecast example_valid_color h1 example_bare_model 0 ?kw = (h2, Inr fig2)"
    by (rule plot_forecast_returns[OF _ _ roles_resolved[OF pal]
          example_valid_defaults[OF pal]])
      (simp_all add: fr example_fcst_def example_bare_model_def default_kwargs_def)
  then obtain h2 fig2 where c2: "plot_forecast example_valid_color h1 example_bare_model 0 ?kw = (h2, Inr fig2)"
    by blast
  have shown: "showlegend (fig_layout fig2) = Some False"
    using legend_of_result(1)[OF c2] hidden1 by simp
  have horiz: "legend_orientation (fig_layout fig2) = Some ''h''"
    "legend_yanchor (fig_layout fig2) = Some ''bottom''"
    using legend_of_result(2)[OF c2] by simp_all
  from c1 c2 shown horiz show ?thesis by blast
qed

end
